theory Spec2Isabelle
  imports Complex_Main
begin

section \<open>Values, exceptions and tables\<close>

text \<open>
  A shallow embedding of \<^verbatim>\<open>lingam/experimental/cdg.py\<close> (class
  \<^verbatim>\<open>CausalDataGenerator\<close>). The class works on pandas tables with scikit-learn
  estimators. Both libraries are outside the repository; the operations the class calls
  are modelled below, each with the behaviour of the library call it stands for.
  Floating point numbers are modelled as exact reals, with one extra cell for NaN.
\<close>

datatype cell = Num real | NaN | Lab string

text \<open>
  Python exceptions, by class, with the text of \<^verbatim>\<open>str(e)\<close>. Texts of exceptions
  raised inside pandas, numpy or scikit-learn are abbreviated. \<open>Unmodelled\<close> is not
  a Python exception: it marks an input whose pandas behaviour this model does not cover
  (a single label that selects several columns, where pandas hands back a table instead
  of a series).
\<close>

datatype py_error =
    TypeError string
  | ValueError string
  | KeyError string
  | AttributeError string
  | RuntimeError string
  | Unmodelled string

fun str_of :: "py_error \<Rightarrow> string" where
  "str_of (TypeError m) = m"
| "str_of (ValueError m) = m"
| "str_of (KeyError m) = m"
| "str_of (AttributeError m) = m"
| "str_of (RuntimeError m) = m"
| "str_of (Unmodelled m) = m"

fun is_TypeError :: "py_error \<Rightarrow> bool" where
  "is_TypeError (TypeError m) = True"
| "is_TypeError e = False"

fun is_ValueError :: "py_error \<Rightarrow> bool" where
  "is_ValueError (ValueError m) = True"
| "is_ValueError e = False"

text \<open>Sequencing of fallible steps: the first exception ends the computation.\<close>

fun thenE :: "py_error + 'a \<Rightarrow> ('a \<Rightarrow> py_error + 'b) \<Rightarrow> py_error + 'b" where
  "thenE (Inl e) f = Inl e"
| "thenE (Inr x) f = f x"

text \<open>
  A column holds its dtype flag (the only dtype test of the source is
  \<^verbatim>\<open>dtype == "category"\<close>) and one cell per row. A table (pandas DataFrame) is a row
  index and a list of named columns; a list, since selecting with overlapping names
  makes tables with repeated column names. A series is one named column with its index.
\<close>

record column =
  categorical :: bool
  cells :: "cell list"

record frame =
  df_index :: "int list"
  df_columns :: "(string \<times> column) list"

record series =
  sr_name :: string
  sr_index :: "int list"
  sr_column :: column

definition col_names :: "frame \<Rightarrow> string list" where
  "col_names f = map fst (df_columns f)"

definition n_rows :: "frame \<Rightarrow> nat" where
  "n_rows f = length (df_index f)"

definition cols_named :: "frame \<Rightarrow> string \<Rightarrow> column list" where
  "cols_named f k = map snd (filter (\<lambda>p. fst p = k) (df_columns f))"

text \<open>
  \<^verbatim>\<open>df[k]\<close> with one label: KeyError when no column has that name, the series when
  exactly one has. With a repeated name pandas returns a table; that case is not modelled.
\<close>

definition getitem :: "frame \<Rightarrow> string \<Rightarrow> py_error + series" where
  "getitem f k =
     (case cols_named f k of
        [] \<Rightarrow> Inl (KeyError k)
      | [c] \<Rightarrow> Inr \<lparr>sr_name = k, sr_index = df_index f, sr_column = c\<rparr>
      | _ \<Rightarrow> Inl (Unmodelled ''a label that selects several columns''))"

text \<open>
  \<^verbatim>\<open>df[[k1, ..., kn]]\<close>: for every label in turn, all the columns of that name;
  KeyError when a label names no column.
\<close>

definition select_columns :: "(string \<times> column) list \<Rightarrow> string list \<Rightarrow> (string \<times> column) list" where
  "select_columns cs ks = concat (map (\<lambda>k. filter (\<lambda>p. fst p = k) cs) ks)"

definition getitem_list :: "frame \<Rightarrow> string list \<Rightarrow> py_error + frame" where
  "getitem_list f ks =
     (case filter (\<lambda>k. k \<notin> set (col_names f)) ks of
        [] \<Rightarrow> Inr (f\<lparr>df_columns := select_columns (df_columns f) ks\<rparr>)
      | k # _ \<Rightarrow> Inl (KeyError k))"

text \<open>
  \<^verbatim>\<open>DataFrame._set_item(k, values)\<close>, the ordinary path of \<^verbatim>\<open>df[k] = values\<close>:
  ValueError when the length is not the number of rows; every column named \<open>k\<close> is
  replaced by the values (pandas tiles a one-dimensional array over a repeated name; a
  categorical array for a repeated name is not modelled); a new name is appended.
\<close>

definition put_column :: "frame \<Rightarrow> string \<Rightarrow> column \<Rightarrow> frame" where
  "put_column f k c =
     (if k \<in> set (col_names f)
      then f\<lparr>df_columns := map (\<lambda>p. if fst p = k then (k, c) else p) (df_columns f)\<rparr>
      else f\<lparr>df_columns := df_columns f @ [(k, c)]\<rparr>)"

definition set_item :: "frame \<Rightarrow> string \<Rightarrow> column \<Rightarrow> py_error + frame" where
  "set_item f k c =
     (if length (cells c) \<noteq> n_rows f
      then Inl (ValueError ''Length of values does not match length of index'')
      else if categorical c \<and> length (cols_named f k) > 1
      then Inl (Unmodelled ''a categorical array for a repeated name'')
      else Inr (put_column f k c))"

text \<open>
  \<^verbatim>\<open>df[k] = values\<close> with a list or a one-dimensional array. When \<open>k\<close> names
  \<open>m > 1\<close> columns and the value has exactly \<open>m\<close> elements,
  \<^verbatim>\<open>DataFrame.__setitem__\<close> takes the value as one entry per column (its branch
  \<^verbatim>\<open>1 < len(self.columns.get_indexer_for([key])) == len(value)\<close>, which ends in
  \<^verbatim>\<open>self[iloc] = value[i]\<close> for each of these columns): the \<open>j\<close>-th column named
  \<open>k\<close> is filled with the \<open>j\<close>-th element in every row, and the length is not
  compared with the number of rows. Otherwise the ordinary path is taken.
\<close>

fun replace_named :: "string \<Rightarrow> (string \<times> column) list \<Rightarrow> column list \<Rightarrow> (string \<times> column) list" where
  "replace_named k [] cs = []"
| "replace_named k (p # ps) cs =
     (if fst p = k
      then (case cs of
              [] \<Rightarrow> p # replace_named k ps []
            | c # cs' \<Rightarrow> (k, c) # replace_named k ps cs')
      else p # replace_named k ps cs)"

definition fill_columns :: "frame \<Rightarrow> string \<Rightarrow> cell list \<Rightarrow> frame" where
  "fill_columns f k vs =
     f\<lparr>df_columns :=
         replace_named k (df_columns f)
           (map (\<lambda>v. \<lparr>categorical = False, cells = replicate (n_rows f) v\<rparr>) vs)\<rparr>"

definition setitem_array :: "frame \<Rightarrow> string \<Rightarrow> cell list \<Rightarrow> py_error + frame" where
  "setitem_array f k vs =
     (if 1 < length (cols_named f k) \<and> length vs = length (cols_named f k)
      then Inr (fill_columns f k vs)
      else set_item f k \<lparr>categorical = False, cells = vs\<rparr>)"

text \<open>
  \<^verbatim>\<open>df[k] = s\<close> with a series. The same branch applies when \<open>k\<close> names
  \<open>m > 1\<close> columns and the series has \<open>m\<close> entries; \<^verbatim>\<open>value[i]\<close> is then a
  lookup of the label \<open>i\<close>, modelled for a series whose labels are \<open>0, \<dots>, m - 1\<close>
  in this order. On the ordinary path the series is aligned on the table's index first:
  with equal indexes nothing moves; otherwise every row label is looked up in the
  series (NaN when absent), which pandas refuses for a series with repeated labels.
\<close>

definition reindex_cells :: "int list \<Rightarrow> cell list \<Rightarrow> int list \<Rightarrow> cell list" where
  "reindex_cells si vs target =
     map (\<lambda>l. case map_of (zip si vs) l of None \<Rightarrow> NaN | Some v \<Rightarrow> v) target"

definition setitem_series :: "frame \<Rightarrow> string \<Rightarrow> series \<Rightarrow> py_error + frame" where
  "setitem_series f k s =
     (if 1 < length (cols_named f k) \<and> length (cells (sr_column s)) = length (cols_named f k)
      then (if sr_index s = map int [0..<length (cells (sr_column s))]
            then Inr (fill_columns f k (cells (sr_column s)))
            else Inl (Unmodelled ''one entry per column from a series with other labels''))
      else if sr_index s = df_index f then set_item f k (sr_column s)
      else if \<not> distinct (sr_index s)
      then Inl (ValueError ''cannot reindex on an axis with duplicate labels'')
      else set_item f k
             ((sr_column s)\<lparr>cells := reindex_cells (sr_index s) (cells (sr_column s)) (df_index f)\<rparr>))"

text \<open>
  \<^verbatim>\<open>df.loc[rows, cols]\<close> with two lists of labels: for every label in turn, all the
  rows (columns) carrying it; KeyError when a label is missing.
\<close>

definition positions :: "int list \<Rightarrow> int \<Rightarrow> nat list" where
  "positions idx l = filter (\<lambda>i. idx ! i = l) [0..<length idx]"

definition row_positions :: "int list \<Rightarrow> int list \<Rightarrow> nat list" where
  "row_positions idx rows = concat (map (positions idx) rows)"

definition take_rows :: "nat list \<Rightarrow> column \<Rightarrow> column" where
  "take_rows ps c = c\<lparr>cells := map (\<lambda>i. cells c ! i) ps\<rparr>"

definition loc :: "frame \<Rightarrow> int list \<Rightarrow> string list \<Rightarrow> py_error + frame" where
  "loc f rows ks =
     (case filter (\<lambda>l. l \<notin> set (df_index f)) rows of
        l # _ \<Rightarrow> Inl (KeyError ''row label not in index'')
      | [] \<Rightarrow>
        (case filter (\<lambda>k. k \<notin> set (col_names f)) ks of
           k # _ \<Rightarrow> Inl (KeyError k)
         | [] \<Rightarrow>
           (let ps = row_positions (df_index f) rows
            in Inr \<lparr>df_index = map (\<lambda>i. df_index f ! i) ps,
                    df_columns = map (\<lambda>p. (fst p, take_rows ps (snd p)))
                                   (select_columns (df_columns f) ks)\<rparr>)))"

text \<open>
  Two tables that agree on the row index, on the column names and on every column
  not named \<open>k\<close>: what an assignment to \<^verbatim>\<open>df[k]\<close> preserves.
\<close>

definition same_except :: "string \<Rightarrow> frame \<Rightarrow> frame \<Rightarrow> bool" where
  "same_except k f g \<longleftrightarrow>
     df_index g = df_index f \<and> col_names g = col_names f \<and>
     (\<forall>k'. k' \<noteq> k \<longrightarrow> cols_named g k' = cols_named f k')"

section \<open>scikit-learn estimators\<close>

text \<open>
  An estimator is an opaque object with \<^verbatim>\<open>fit\<close>; fitting gives the object its
  \<^verbatim>\<open>predict\<close>, \<^verbatim>\<open>predict_proba\<close> and \<^verbatim>\<open>classes_\<close>. A call that raises
  returns \<open>Inl\<close>. Predictions of a regressor are finite floats. \<open>est_type\<close> is
  what \<^verbatim>\<open>is_regressor\<close> and \<^verbatim>\<open>is_classifier\<close> report, \<open>has_predict_proba\<close>
  whether \<^verbatim>\<open>getattr(estimator, "predict_proba")\<close> is callable.
\<close>

datatype est_type = Regressor | Classifier | OtherEstimator

record fitted_model =
  predict :: "frame \<Rightarrow> py_error + real list"
  predict_proba :: "frame \<Rightarrow> py_error + real list list"
  classes :: "cell list"

record estimator =
  est_type :: est_type
  has_predict_proba :: bool
  est_fit :: "frame \<Rightarrow> series \<Rightarrow> py_error + fitted_model"

text \<open>
  The estimators the source constructs itself: \<^verbatim>\<open>LinearRegression()\<close>,
  \<^verbatim>\<open>LogisticRegression()\<close>, and the \<^verbatim>\<open>Pipeline\<close> of a one-hot
  \<^verbatim>\<open>ColumnTransformer\<close> (categorical names, numeric names) in front of an estimator.
  They are parameters of the model.
\<close>

record sklearn =
  LinearRegression :: estimator
  LogisticRegression :: estimator
  Pipeline :: "string list \<Rightarrow> string list \<Rightarrow> estimator \<Rightarrow> estimator"

text \<open>
  \<^verbatim>\<open>check_array(X, dtype=None, ensure_min_features=2)\<close> on a table: ValueError for
  a NaN cell, for no rows, and for fewer features than required.
\<close>

definition check_array_frame :: "nat \<Rightarrow> frame \<Rightarrow> py_error + unit" where
  "check_array_frame min_features f =
     (if list_ex (\<lambda>p. NaN \<in> set (cells (snd p))) (df_columns f)
      then Inl (ValueError ''Input contains NaN'')
      else if n_rows f < 1
      then Inl (ValueError ''Found array with 0 sample(s) while a minimum of 1 is required'')
      else if length (df_columns f) < min_features
      then Inl (ValueError ''Found array with too few feature(s)'')
      else Inr ())"

text \<open>
  An array of names as numpy holds it: its shape and its elements in row-major order.
  \<^verbatim>\<open>check_array(a, ensure_2d=False, dtype=None, ensure_min_samples=0)\<close> refuses
  three or more dimensions, and a two-dimensional array with no feature;
  \<^verbatim>\<open>reshape((-1, ))\<close> then gives the elements as one flat array.
\<close>

record name_array =
  nd_shape :: "nat list"
  nd_data :: "string list"

definition check_array_names :: "name_array \<Rightarrow> py_error + name_array" where
  "check_array_names a =
     (if length (nd_shape a) \<ge> 3
      then Inl (ValueError ''Found array with dim >= 3. None expected <= 2.'')
      else if length (nd_shape a) = 2 \<and> nd_shape a ! 1 < 1
      then Inl (ValueError ''Found array with 0 feature(s) while a minimum of 1 is required'')
      else Inr a)"

definition reshape_flat :: "name_array \<Rightarrow> string list" where
  "reshape_flat a = nd_data a"

text \<open>
  \<^verbatim>\<open>check_array(values, ensure_2d=False, dtype=None)\<close> on the array of an
  intervention: ValueError for a NaN and for an empty array.
\<close>

definition check_array_values :: "cell list \<Rightarrow> py_error + cell list" where
  "check_array_values vs =
     (if NaN \<in> set vs then Inl (ValueError ''Input contains NaN'')
      else if length vs < 1
      then Inl (ValueError ''Found array with 0 sample(s) while a minimum of 1 is required'')
      else Inr vs)"

section \<open>Arithmetic on columns\<close>

text \<open>
  numpy computes in IEEE 754 binary64. A difference or a sum of two floats is the exact
  result rounded to the nearest representable number, ties to the even significand:
  \<open>float64 x\<close> is that rounding, with a significand of 53 bits and, for the
  subnormal numbers, the fixed spacing of 2 to the power -1074.
  \<open>binary_exponent x\<close> is the integer part of the binary logarithm of \<open>\<bar>x\<bar>\<close>.
  Overflow to infinity is not modelled: a result beyond the largest float is kept as
  the rounded number.
\<close>

definition round_even :: "real \<Rightarrow> int" where
  "round_even x =
     (let n = \<lfloor>x\<rfloor>; d = x - of_int n
      in if d < 1 / 2 then n else if 1 / 2 < d then n + 1 else if even n then n else n + 1)"

fun bit_length :: "nat \<Rightarrow> nat" where
  "bit_length n = (if n = 0 then 0 else Suc (bit_length (n div 2)))"

declare bit_length.simps [simp del]

definition binary_exponent :: "real \<Rightarrow> int" where
  "binary_exponent x =
     (if 1 \<le> \<bar>x\<bar> then int (bit_length (nat \<lfloor>\<bar>x\<bar>\<rfloor>)) - 1
      else - int (bit_length (nat (\<lceil>1 / \<bar>x\<bar>\<rceil> - 1))))"

definition pow2 :: "int \<Rightarrow> real" where
  "pow2 e = (if 0 \<le> e then 2 ^ nat e else 1 / 2 ^ nat (- e))"

definition float64 :: "real \<Rightarrow> real" where
  "float64 x =
     (if x = 0 then 0
      else let e = max (binary_exponent x - 52) (- 1074)
           in of_int (round_even (x / pow2 e)) * pow2 e)"

text \<open>
  \<^verbatim>\<open>y - predicted\<close> and \<^verbatim>\<open>column += predicted\<close>, element by element and
  rounded: NaN stays NaN, a label with a float is a TypeError, arrays of different
  lengths a ValueError.
\<close>

fun cell_sub :: "cell \<Rightarrow> real \<Rightarrow> py_error + cell" where
  "cell_sub (Num a) r = Inr (Num (float64 (a - r)))"
| "cell_sub NaN r = Inr NaN"
| "cell_sub (Lab s) r = Inl (TypeError ''unsupported operand type(s) for -: str and float'')"

fun cell_add :: "cell \<Rightarrow> real \<Rightarrow> py_error + cell" where
  "cell_add (Num a) r = Inr (Num (float64 (a + r)))"
| "cell_add NaN r = Inr NaN"
| "cell_add (Lab s) r = Inl (TypeError ''can only concatenate str (not float) to str'')"

fun zipE :: "(cell \<Rightarrow> real \<Rightarrow> py_error + cell) \<Rightarrow> cell list \<Rightarrow> real list \<Rightarrow> py_error + cell list" where
  "zipE f [] [] = Inr []"
| "zipE f (x # xs) (r # rs) =
     thenE (f x r) (\<lambda>v. thenE (zipE f xs rs) (\<lambda>vs. Inr (v # vs)))"
| "zipE f xs rs = Inl (ValueError ''operands could not be broadcast together'')"

definition sub_array :: "cell list \<Rightarrow> real list \<Rightarrow> py_error + cell list" where
  "sub_array xs rs =
     (if length xs \<noteq> length rs
      then Inl (ValueError ''operands could not be broadcast together'')
      else zipE cell_sub xs rs)"

definition add_array :: "cell list \<Rightarrow> real list \<Rightarrow> py_error + cell list" where
  "add_array xs rs =
     (if length xs \<noteq> length rs
      then Inl (ValueError ''operands could not be broadcast together'')
      else zipE cell_add xs rs)"

text \<open>
  \<^verbatim>\<open>df[k] += predicted\<close>, that is \<^verbatim>\<open>df[k] = df[k].__iadd__(predicted)\<close>. With one
  column named \<open>k\<close> the array is added to it row by row. With a repeated name
  \<^verbatim>\<open>df[k]\<close> is a table of the \<open>m\<close> columns of that name, and pandas adds an array
  to a table along its columns: ValueError unless the array has \<open>m\<close> elements, and
  then element \<open>j\<close> is added to every cell of the \<open>j\<close>-th of these columns.
\<close>

definition add_scalar :: "column \<Rightarrow> real \<Rightarrow> py_error + column" where
  "add_scalar c r =
     thenE (zipE cell_add (cells c) (replicate (length (cells c)) r))
       (\<lambda>vs. Inr \<lparr>categorical = False, cells = vs\<rparr>)"

fun add_along_columns :: "string \<Rightarrow> (string \<times> column) list \<Rightarrow> real list \<Rightarrow> py_error + (string \<times> column) list" where
  "add_along_columns k [] rs = Inr []"
| "add_along_columns k (p # ps) rs =
     (if fst p = k
      then (case rs of
              [] \<Rightarrow> Inl (ValueError ''Unable to coerce to Series'')
            | r # rs' \<Rightarrow>
                thenE (add_scalar (snd p) r)
                  (\<lambda>c. thenE (add_along_columns k ps rs') (\<lambda>qs. Inr ((k, c) # qs))))
      else thenE (add_along_columns k ps rs) (\<lambda>qs. Inr (p # qs)))"

definition iadd_array :: "frame \<Rightarrow> string \<Rightarrow> real list \<Rightarrow> py_error + frame" where
  "iadd_array f k rs =
     (case cols_named f k of
        [] \<Rightarrow> Inl (KeyError k)
      | [c] \<Rightarrow>
          (if categorical c
           then Inl (TypeError ''unsupported operand type(s) for +: Categorical and ndarray'')
           else thenE (add_array (cells c) rs) (setitem_array f k))
      | cs \<Rightarrow>
          (if length cs \<noteq> length rs
           then Inl (ValueError ''Unable to coerce to Series'')
           else thenE (add_along_columns k (df_columns f) rs)
                  (\<lambda>qs. Inr (f\<lparr>df_columns := qs\<rparr>))))"

text \<open>\<^verbatim>\<open>df[k] = pd.Categorical(df[k])\<close>: the column becomes categorical.\<close>

definition set_categorical :: "frame \<Rightarrow> string \<Rightarrow> py_error + frame" where
  "set_categorical f k =
     thenE (getitem f k) (\<lambda>s. set_item f k ((sr_column s)\<lparr>categorical := True\<rparr>))"

section \<open>CausalDataGenerator\<close>

text \<open>
  The attributes \<^verbatim>\<open>fit\<close> writes: \<^verbatim>\<open>_X\<close>, \<^verbatim>\<open>_cause\<close>, \<^verbatim>\<open>_effect\<close>,
  \<^verbatim>\<open>_adjustments\<close>, \<^verbatim>\<open>model_cause_\<close>, \<^verbatim>\<open>model_effect_\<close>, \<^verbatim>\<open>error_cause_\<close>,
  \<^verbatim>\<open>error_effect_\<close>. The attribute \<^verbatim>\<open>_random_state\<close> of \<^verbatim>\<open>__init__\<close> is
  passed to \<open>generate\<close> and returned by it.
\<close>

record fitted =
  self_X :: frame
  self_cause :: string
  self_effect :: string
  self_adjustments :: "string list"
  self_model_cause :: "fitted_model option"
  self_model_effect :: fitted_model
  self_error_cause :: series
  self_error_effect :: series

subsection \<open>\<^verbatim>\<open>_is_sklearn_estimator\<close> and \<^verbatim>\<open>_make_model\<close>\<close>

definition is_sklearn_estimator :: "estimator \<Rightarrow> bool \<Rightarrow> py_error + unit" where
  "is_sklearn_estimator est is_categorical =
     (if is_categorical \<and> est_type est = Regressor
      then Inl (TypeError ''The Object variable is categorical but the estimator is a regressor.'')
      else if \<not> is_categorical \<and> est_type est = Classifier
      then Inl (TypeError ''The Object variable is not categorical but the estimator is a classifier.'')
      else if is_categorical \<and> \<not> has_predict_proba est
      then Inl (RuntimeError ''Classification models shall have predict_proba().'')
      else Inr ())"

definition default_model :: "sklearn \<Rightarrow> frame \<Rightarrow> series \<Rightarrow> estimator" where
  "default_model lib X y =
     (let model = (if categorical (sr_column y) then LogisticRegression lib
                   else LinearRegression lib);
          categoricals = map fst (filter (\<lambda>p. categorical (snd p)) (df_columns X));
          numerics = map fst (filter (\<lambda>p. \<not> categorical (snd p)) (df_columns X))
      in if length categoricals > 0 then Pipeline lib categoricals numerics model else model)"

definition make_series :: "cell list \<Rightarrow> series \<Rightarrow> py_error + series" where
  "make_series resids y =
     (if length resids \<noteq> length (sr_index y)
      then Inl (ValueError ''Length of values does not match length of index'')
      else Inr \<lparr>sr_name = sr_name y, sr_index = sr_index y,
                sr_column = \<lparr>categorical = False, cells = resids\<rparr>\<rparr>)"

definition make_model ::
  "sklearn \<Rightarrow> frame \<Rightarrow> series \<Rightarrow> string \<Rightarrow> estimator option \<Rightarrow> py_error + (fitted_model \<times> series)" where
  "make_model lib X y name model =
     thenE (case model of
              Some m \<Rightarrow>
                (case est_fit m X y of
                   Inl e \<Rightarrow> Inl (RuntimeError (name @ ''.fit(): '' @ str_of e))
                 | Inr fm \<Rightarrow> Inr fm)
            | None \<Rightarrow> est_fit (default_model lib X y) X y)
       (\<lambda>fm. thenE (if categorical (sr_column y) then Inr (replicate (n_rows X) NaN)
                    else thenE (predict fm X) (sub_array (cells (sr_column y))))
          (\<lambda>resids. thenE (make_series resids y) (\<lambda>s. Inr (fm, s))))"

subsection \<open>\<^verbatim>\<open>fit\<close>\<close>

datatype x_arg = NotDataFrame | DataFrame frame

definition check_estimator :: "frame \<Rightarrow> string \<Rightarrow> estimator option \<Rightarrow> py_error + unit" where
  "check_estimator X target model =
     (case model of
        None \<Rightarrow> Inr ()
      | Some m \<Rightarrow> thenE (getitem X target)
                   (\<lambda>y. is_sklearn_estimator m (categorical (sr_column y))))"

text \<open>
  \<^verbatim>\<open>fit\<close> in the three parts the source has: the checks of the arguments (source
  lines 76 to 104), the \<^verbatim>\<open># cause\<close> part (lines 106 to 111) and the
  \<^verbatim>\<open># effect\<close> part (lines 113 to 115); the attributes are written last.
\<close>

definition validate_fit ::
  "x_arg \<Rightarrow> string \<Rightarrow> string \<Rightarrow> name_array option \<Rightarrow>
   estimator option \<Rightarrow> estimator option \<Rightarrow> py_error + (frame \<times> string list)" where
  "validate_fit X_arg cause effect adjustments_arg model_cause model_effect =
     (case X_arg of
        NotDataFrame \<Rightarrow> Inl (TypeError ''X shall be a pandas.DataFrame.'')
      | DataFrame X \<Rightarrow>
        thenE (check_array_frame 2 X) (\<lambda>_.
        if cause \<notin> set (col_names X)
        then Inl (ValueError ''cause isn't exist in X.columns.'')
        else if effect \<notin> set (col_names X)
        then Inl (ValueError ''effect isn't exist in X.columns.'')
        else
        thenE (case adjustments_arg of
                 None \<Rightarrow> Inr []
               | Some a \<Rightarrow> thenE (check_array_names a) (\<lambda>a'. Inr (reshape_flat a')))
          (\<lambda>adjustments.
        thenE (check_estimator X cause model_cause) (\<lambda>_.
        thenE (check_estimator X effect model_effect) (\<lambda>_.
          Inr (X, adjustments))))))"

definition fit_cause ::
  "sklearn \<Rightarrow> frame \<Rightarrow> string \<Rightarrow> string list \<Rightarrow> estimator option \<Rightarrow>
   py_error + (fitted_model option \<times> series)" where
  "fit_cause lib X cause adjustments model_cause =
     (if length adjustments = 0
      then thenE (getitem X cause) (\<lambda>y. Inr (None, y))
      else thenE (getitem_list X adjustments) (\<lambda>Xa.
           thenE (getitem X cause) (\<lambda>y.
           thenE (make_model lib Xa y ''model_cause'' model_cause)
             (\<lambda>(m, resid). Inr (Some m, resid)))))"

definition fit_effect ::
  "sklearn \<Rightarrow> frame \<Rightarrow> string \<Rightarrow> string \<Rightarrow> string list \<Rightarrow> estimator option \<Rightarrow>
   py_error + (fitted_model \<times> series)" where
  "fit_effect lib X cause effect adjustments model_effect =
     thenE (getitem_list X (cause # adjustments)) (\<lambda>Xe.
     thenE (getitem X effect) (\<lambda>y.
       make_model lib Xe y ''model_effect'' model_effect))"

definition fit ::
  "sklearn \<Rightarrow> x_arg \<Rightarrow> string \<Rightarrow> string \<Rightarrow> name_array option \<Rightarrow>
   estimator option \<Rightarrow> estimator option \<Rightarrow> py_error + fitted" where
  "fit lib X_arg cause effect adjustments_arg model_cause model_effect =
     thenE (validate_fit X_arg cause effect adjustments_arg model_cause model_effect)
       (\<lambda>(X, adjustments).
     thenE (fit_cause lib X cause adjustments model_cause)
       (\<lambda>(model_cause', resid_cause).
     thenE (fit_effect lib X cause effect adjustments model_effect)
       (\<lambda>(model_effect', resid_effect).
          Inr \<lparr>self_X = X, self_cause = cause, self_effect = effect,
               self_adjustments = adjustments,
               self_model_cause = model_cause', self_model_effect = model_effect',
               self_error_cause = resid_cause,
               self_error_effect = resid_effect\<rparr>)))"

subsection \<open>\<^verbatim>\<open>_check_data_dict\<close>\<close>

text \<open>
  An intervention argument as Python passes it: \<^verbatim>\<open>None\<close>, an object that is not a
  dict, or a dict, whose items are listed in iteration order. A key is a \<^verbatim>\<open>str\<close> or
  another object (given by its \<^verbatim>\<open>str()\<close>); a value is a one-dimensional array.
  Inside the loop of the source the loop variable \<^verbatim>\<open>name\<close> shadows the parameter
  of that name, so the messages there quote the key.
\<close>

datatype py_key = StrKey string | OtherKey string

datatype dict_arg = NoneArg | NotDict | Dict "(py_key \<times> cell list) list"

fun check_items :: "fitted \<Rightarrow> (py_key \<times> cell list) list \<Rightarrow> py_error + (string \<times> cell list) list" where
  "check_items st [] = Inr []"
| "check_items st ((key, vs) # rest) =
     (case key of
        OtherKey r \<Rightarrow> Inl (TypeError (''A key of '' @ r @ '' shall be str.''))
      | StrKey name \<Rightarrow>
          if name \<notin> set (self_cause st # self_effect st # self_adjustments st)
          then Inl (ValueError (''Keys of '' @ name @
                      '' shall be cause or effect or a element of adjustments.''))
          else thenE (check_array_values vs) (\<lambda>vs'.
               if length vs' \<noteq> n_rows (self_X st)
               then Inl (ValueError (''shape[0] of '' @ name @
                           '' shall be the same as X.shape[0].''))
               else thenE (check_items st rest) (\<lambda>items. Inr ((name, vs) # items))))"

definition check_data_dict :: "fitted \<Rightarrow> dict_arg \<Rightarrow> string \<Rightarrow> py_error + (string \<times> cell list) list" where
  "check_data_dict st data_dict name =
     (case data_dict of
        NoneArg \<Rightarrow> Inr []
      | NotDict \<Rightarrow> Inl (TypeError (name @ '' shall be a dictionary.''))
      | Dict items \<Rightarrow> check_items st items)"


subsection \<open>\<^verbatim>\<open>generate\<close>\<close>

text \<open>
  A custom mechanism as Python passes it: \<^verbatim>\<open>None\<close>, an object that is not
  callable, or a callable of (features, error, args) that returns an array or raises an
  \<^verbatim>\<open>Exception\<close>. \<^verbatim>\<open>RandomState.choice(a, p=p)\<close> is a parameter: from a
  generator state it gives a drawn element (or raises) and the next state.
\<close>

datatype 'a model_arg =
    NoModel
  | NotCallable
  | Callable "frame \<Rightarrow> series \<Rightarrow> 'a \<Rightarrow> py_error + cell list"

type_synonym 'r choice = "'r \<Rightarrow> cell list \<Rightarrow> real list \<Rightarrow> (py_error + cell) \<times> 'r"

definition check_callable :: "'a model_arg \<Rightarrow> string \<Rightarrow> py_error + unit" where
  "check_callable m name =
     (case m of NotCallable \<Rightarrow> Inl (TypeError (name @ '' shall be callable.''))
      | _ \<Rightarrow> Inr ())"

text \<open>The loop \<^verbatim>\<open>for proba_ in proba: predicted.append(choice(classes_, p=proba_))\<close>.\<close>

fun sample_rows :: "'r choice \<Rightarrow> cell list \<Rightarrow> real list list \<Rightarrow> 'r \<Rightarrow> (py_error + cell list) \<times> 'r" where
  "sample_rows choice cls [] rs = (Inr [], rs)"
| "sample_rows choice cls (p # ps) rs =
     (case choice rs cls p of
        (Inl e, rs') \<Rightarrow> (Inl e, rs')
      | (Inr x, rs') \<Rightarrow>
          (case sample_rows choice cls ps rs' of
             (Inl e, rs'') \<Rightarrow> (Inl e, rs'')
           | (Inr xs, rs'') \<Rightarrow> (Inr (x # xs), rs'')))"

text \<open>
  The \<^verbatim>\<open>else\<close> branch of both blocks, for a custom mechanism (source lines 201 to
  213 and 231 to 243). The \<^verbatim>\<open>try\<close> block selects the feature columns and the
  current column of the variable and calls the mechanism on them and the arguments; an
  exception raised in the block is wrapped in a RuntimeError that names the mechanism.
  The returned array becomes the column, categorical if the fitted column was.
\<close>

definition wrap_exception :: "string \<Rightarrow> py_error \<Rightarrow> py_error" where
  "wrap_exception label e = RuntimeError (''Exception: '' @ label @ '': '' @ str_of e)"

definition call_custom_model ::
  "string \<Rightarrow> string list \<Rightarrow> string \<Rightarrow>
   (frame \<Rightarrow> series \<Rightarrow> 'a \<Rightarrow> py_error + cell list) \<Rightarrow> 'a \<Rightarrow> frame \<Rightarrow> py_error + cell list" where
  "call_custom_model target features label g args generated =
     (case getitem_list generated features of
        Inl e \<Rightarrow> Inl (wrap_exception label e)
      | Inr Xf \<Rightarrow>
          (case getitem generated target of
             Inl (Unmodelled m) \<Rightarrow> Inl (Unmodelled m)
           | Inl e \<Rightarrow> Inl (wrap_exception label e)
           | Inr err \<Rightarrow>
               (case g Xf err args of
                  Inl e \<Rightarrow> Inl (wrap_exception label e)
                | Inr predicted \<Rightarrow> Inr predicted)))"

definition by_custom_model ::
  "fitted \<Rightarrow> string \<Rightarrow> string list \<Rightarrow> string \<Rightarrow>
   (frame \<Rightarrow> series \<Rightarrow> 'a \<Rightarrow> py_error + cell list) \<Rightarrow> 'a \<Rightarrow> frame \<Rightarrow> py_error + frame" where
  "by_custom_model st target features label g args generated =
     thenE (call_custom_model target features label g args generated) (\<lambda>predicted.
     thenE (setitem_array generated target predicted) (\<lambda>generated'.
     thenE (getitem (self_X st) target) (\<lambda>x.
       if categorical (sr_column x) then set_categorical generated' target
       else Inr generated')))"

text \<open>
  The \<^verbatim>\<open>else\<close> branch for the fitted model (source lines 215 to 225 and 245 to
  255). A continuous variable gets the prediction added to its column; a categorical
  one gets one label per row of \<^verbatim>\<open>predict_proba\<close>, drawn by \<^verbatim>\<open>choice\<close> from
  \<^verbatim>\<open>classes_\<close>. The source reads the attribute \<^verbatim>\<open>predict\<close> (or
  \<^verbatim>\<open>predict_proba\<close>) of the stored model without testing it for \<^verbatim>\<open>None\<close>.
\<close>

definition by_fitted_model ::
  "'r choice \<Rightarrow> fitted \<Rightarrow> string \<Rightarrow> string list \<Rightarrow> fitted_model option \<Rightarrow>
   frame \<Rightarrow> 'r \<Rightarrow> (py_error + frame) \<times> 'r" where
  "by_fitted_model choice st target features model generated rs =
     (case getitem (self_X st) target of
        Inl e \<Rightarrow> (Inl e, rs)
      | Inr x \<Rightarrow>
          if \<not> categorical (sr_column x)
          then (case model of
                  None \<Rightarrow> (Inl (AttributeError ''NoneType object has no attribute predict''), rs)
                | Some m \<Rightarrow>
                    (thenE (getitem_list generated features) (\<lambda>Xf.
                     thenE (predict m Xf) (\<lambda>predicted.
                       iadd_array generated target predicted)), rs))
          else (case model of
                  None \<Rightarrow>
                    (Inl (AttributeError ''NoneType object has no attribute predict_proba''), rs)
                | Some m \<Rightarrow>
                    (case thenE (getitem_list generated features) (predict_proba m) of
                       Inl e \<Rightarrow> (Inl e, rs)
                     | Inr proba \<Rightarrow>
                         (case sample_rows choice (classes m) proba rs of
                            (Inl e, rs') \<Rightarrow> (Inl e, rs')
                          | (Inr predicted, rs') \<Rightarrow>
                              (thenE (setitem_array generated target predicted)
                                 (\<lambda>generated'. set_categorical generated' target), rs')))))"

text \<open>
  One block of \<^verbatim>\<open>generate\<close> (\<^verbatim>\<open># cause\<close>, source lines 198 to 225, and
  \<^verbatim>\<open># effect\<close>, lines 228 to 255, which differ in the names only): the endogenous
  intervention first, then the custom mechanism, then the fitted model.
\<close>

definition resolve ::
  "'r choice \<Rightarrow> fitted \<Rightarrow> (string \<times> cell list) list \<Rightarrow> string \<Rightarrow> string list \<Rightarrow> string \<Rightarrow>
   fitted_model option \<Rightarrow> 'a model_arg \<Rightarrow> 'a \<Rightarrow> frame \<Rightarrow> 'r \<Rightarrow> (py_error + frame) \<times> 'r" where
  "resolve choice st interv_endog target features label model custom args generated rs =
     (case map_of interv_endog target of
        Some vs \<Rightarrow> (setitem_array generated target vs, rs)
      | None \<Rightarrow>
          (case custom of
             Callable g \<Rightarrow> (by_custom_model st target features label g args generated, rs)
           | _ \<Rightarrow> by_fitted_model choice st target features model generated rs))"

text \<open>The loop \<^verbatim>\<open>for name, interv_exog_ in interv_exog.items()\<close>.\<close>

fun update_interventions :: "frame \<Rightarrow> (string \<times> cell list) list \<Rightarrow> py_error + frame" where
  "update_interventions generated [] = Inr generated"
| "update_interventions generated ((name, vs) # rest) =
     thenE (setitem_array generated name vs) (\<lambda>g. update_interventions g rest)"

definition initial_data :: "fitted \<Rightarrow> (string \<times> cell list) list \<Rightarrow> py_error + frame" where
  "initial_data st interv_exog =
     thenE (getitem_list (self_X st)
              (self_cause st # self_effect st # self_adjustments st)) (\<lambda>g0.
     thenE (setitem_series g0 (self_cause st) (self_error_cause st)) (\<lambda>g1.
     thenE (setitem_series g1 (self_effect st) (self_error_effect st)) (\<lambda>g2.
       update_interventions g2 interv_exog)))"

definition check_arguments ::
  "fitted \<Rightarrow> dict_arg \<Rightarrow> dict_arg \<Rightarrow> 'a model_arg \<Rightarrow> 'a model_arg \<Rightarrow>
   py_error + ((string \<times> cell list) list \<times> (string \<times> cell list) list)" where
  "check_arguments st interv_endog interv_exog cause_model effect_model =
     thenE (check_data_dict st interv_endog ''interv_endog'') (\<lambda>endog.
     thenE (check_data_dict st interv_exog ''interv_exog'') (\<lambda>exog.
     thenE (check_callable cause_model ''cause_model'') (\<lambda>_.
     thenE (check_callable effect_model ''effect_model'') (\<lambda>_.
       Inr (endog, exog)))))"

definition generate ::
  "'r choice \<Rightarrow> fitted \<Rightarrow> dict_arg \<Rightarrow> dict_arg \<Rightarrow> 'a model_arg \<Rightarrow> 'a \<Rightarrow> 'a model_arg \<Rightarrow> 'a \<Rightarrow>
   'r \<Rightarrow> (py_error + frame) \<times> 'r" where
  "generate choice st interv_endog interv_exog cause_model cause_model_args
     effect_model effect_model_args rs =
     (case check_arguments st interv_endog interv_exog cause_model effect_model of
        Inl e \<Rightarrow> (Inl e, rs)
      | Inr (endog, exog) \<Rightarrow>
     (case initial_data st exog of
        Inl e \<Rightarrow> (Inl e, rs)
      | Inr generated \<Rightarrow>
     (case resolve choice st endog (self_cause st) (self_adjustments st) ''cause_model''
             (self_model_cause st) cause_model cause_model_args generated rs of
        (Inl e, rs') \<Rightarrow> (Inl e, rs')
      | (Inr generated', rs') \<Rightarrow>
     (case resolve choice st endog (self_effect st)
             (self_cause st # self_adjustments st) ''effect_model''
             (Some (self_model_effect st)) effect_model effect_model_args generated' rs' of
        (Inl e, rs'') \<Rightarrow> (Inl e, rs'')
      | (Inr generated'', rs'') \<Rightarrow>
          (loc generated'' (df_index (self_X st)) (col_names (self_X st)), rs'')))))"

section \<open>Example estimators and data\<close>

text \<open>
  Concrete inputs for the instances below: a regressor that always predicts zero, one
  that predicts the first feature column, a classifier with the classes \<open>a\<close> and
  \<open>b\<close> that gives each the probability one half, an estimator whose \<^verbatim>\<open>fit\<close> raises,
  and a generator whose \<^verbatim>\<open>choice\<close> takes the first element and counts its calls.
\<close>

definition zero_model :: fitted_model where
  "zero_model =
     \<lparr>predict = (\<lambda>X. Inr (replicate (n_rows X) 0)),
      predict_proba = (\<lambda>X. Inl (AttributeError ''predict_proba'')),
      classes = []\<rparr>"

definition zero_regressor :: estimator where
  "zero_regressor =
     \<lparr>est_type = Regressor, has_predict_proba = False, est_fit = (\<lambda>X y. Inr zero_model)\<rparr>"

fun num_of :: "cell \<Rightarrow> real" where
  "num_of (Num a) = a"
| "num_of c = 0"

definition echo_model :: fitted_model where
  "echo_model =
     \<lparr>predict = (\<lambda>X. case df_columns X of
                        [] \<Rightarrow> Inr (replicate (n_rows X) 0)
                      | p # _ \<Rightarrow> Inr (map num_of (cells (snd p)))),
      predict_proba = (\<lambda>X. Inl (AttributeError ''predict_proba'')),
      classes = []\<rparr>"

definition echo_regressor :: estimator where
  "echo_regressor =
     \<lparr>est_type = Regressor, has_predict_proba = False, est_fit = (\<lambda>X y. Inr echo_model)\<rparr>"

definition coin_model :: fitted_model where
  "coin_model =
     \<lparr>predict = (\<lambda>X. Inr (replicate (n_rows X) 0)),
      predict_proba = (\<lambda>X. Inr (replicate (n_rows X) [1 / 2, 1 / 2])),
      classes = [Lab ''a'', Lab ''b'']\<rparr>"

definition coin_classifier :: estimator where
  "coin_classifier =
     \<lparr>est_type = Classifier, has_predict_proba = True, est_fit = (\<lambda>X y. Inr coin_model)\<rparr>"

definition failing_estimator :: estimator where
  "failing_estimator =
     \<lparr>est_type = OtherEstimator, has_predict_proba = True,
      est_fit = (\<lambda>X y. Inl (ValueError ''boom''))\<rparr>"

definition example_sklearn :: sklearn where
  "example_sklearn =
     \<lparr>LinearRegression = zero_regressor, LogisticRegression = coin_classifier,
      Pipeline = (\<lambda>categoricals numerics model. model)\<rparr>"

definition first_choice :: "nat choice" where
  "first_choice rs a p =
     (case a of
        [] \<Rightarrow> (Inl (ValueError ''a must be non-empty''), rs)
      | x # _ \<Rightarrow> (Inr x, Suc rs))"

definition num_column :: "real list \<Rightarrow> column" where
  "num_column xs = \<lparr>categorical = False, cells = map Num xs\<rparr>"

definition lab_column :: "string list \<Rightarrow> column" where
  "lab_column xs = \<lparr>categorical = True, cells = map Lab xs\<rparr>"

definition X_ab :: frame where
  "X_ab = \<lparr>df_index = [0, 1, 2],
           df_columns = [(''A'', num_column [1, 2, 3]), (''B'', num_column [4, 5, 6])]\<rparr>"

definition X_abc :: frame where
  "X_abc = \<lparr>df_index = [0, 1, 2],
            df_columns = [(''A'', num_column [1, 2, 3]), (''B'', num_column [4, 5, 6]),
                          (''C'', num_column [7, 8, 9])]\<rparr>"

definition X_abcd :: frame where
  "X_abcd = \<lparr>df_index = [0, 1, 2],
             df_columns = [(''A'', num_column [1, 2, 3]), (''B'', num_column [4, 5, 6]),
                           (''C'', num_column [7, 8, 9]), (''D'', num_column [1, 0, 1])]\<rparr>"

definition X_a :: frame where
  "X_a = \<lparr>df_index = [0, 1, 2], df_columns = [(''A'', num_column [1, 2, 3])]\<rparr>"

definition X_cat :: frame where
  "X_cat = \<lparr>df_index = [0, 1, 2],
            df_columns = [(''A'', lab_column [''a'', ''b'', ''a'']), (''B'', num_column [4, 5, 6]),
                          (''C'', num_column [7, 8, 9])]\<rparr>"

definition names_1d :: "string list \<Rightarrow> name_array" where
  "names_1d ks = \<lparr>nd_shape = [length ks], nd_data = ks\<rparr>"

definition st_abc :: fitted where
  "st_abc =
     \<lparr>self_X = X_abc, self_cause = ''A'', self_effect = ''B'', self_adjustments = [''C''],
      self_model_cause = Some zero_model, self_model_effect = zero_model,
      self_error_cause =
        \<lparr>sr_name = ''A'', sr_index = [0, 1, 2], sr_column = num_column [1, 2, 3]\<rparr>,
      self_error_effect =
        \<lparr>sr_name = ''B'', sr_index = [0, 1, 2], sr_column = num_column [4, 5, 6]\<rparr>\<rparr>"

definition st_ab :: fitted where
  "st_ab =
     \<lparr>self_X = X_ab, self_cause = ''A'', self_effect = ''B'', self_adjustments = [],
      self_model_cause = None, self_model_effect = zero_model,
      self_error_cause =
        \<lparr>sr_name = ''A'', sr_index = [0, 1, 2], sr_column = num_column [1, 2, 3]\<rparr>,
      self_error_effect =
        \<lparr>sr_name = ''B'', sr_index = [0, 1, 2], sr_column = num_column [4, 5, 6]\<rparr>\<rparr>"

definition st_cat :: fitted where
  "st_cat =
     \<lparr>self_X = X_cat, self_cause = ''A'', self_effect = ''B'', self_adjustments = [''C''],
      self_model_cause = Some coin_model, self_model_effect = zero_model,
      self_error_cause =
        \<lparr>sr_name = ''A'', sr_index = [0, 1, 2],
         sr_column = \<lparr>categorical = False, cells = [NaN, NaN, NaN]\<rparr>\<rparr>,
      self_error_effect =
        \<lparr>sr_name = ''B'', sr_index = [0, 1, 2], sr_column = num_column [4, 5, 6]\<rparr>\<rparr>"

definition raising_model :: "frame \<Rightarrow> series \<Rightarrow> unit \<Rightarrow> py_error + cell list" where
  "raising_model X err args = Inl (ValueError ''bad'')"

text \<open>
  Further fitted states and tables: the state fitted on \<open>X_cat\<close> with the categorical
  column as the effect, the table the first-element generator produces from it, two
  endogenous interventions with the tables they give, the state fitted with the echoing
  regressor, and a table whose first two rows carry the same label.
\<close>

definition st_cat_effect :: fitted where
  "st_cat_effect =
     \<lparr>self_X = X_cat, self_cause = ''B'', self_effect = ''A'', self_adjustments = [''C''],
      self_model_cause = Some zero_model, self_model_effect = coin_model,
      self_error_cause =
        \<lparr>sr_name = ''B'', sr_index = [0, 1, 2], sr_column = num_column [4, 5, 6]\<rparr>,
      self_error_effect =
        \<lparr>sr_name = ''A'', sr_index = [0, 1, 2],
         sr_column = \<lparr>categorical = False, cells = [NaN, NaN, NaN]\<rparr>\<rparr>\<rparr>"

definition X_cat_generated :: frame where
  "X_cat_generated =
     \<lparr>df_index = [0, 1, 2],
      df_columns = [(''A'', lab_column [''a'', ''a'', ''a'']), (''B'', num_column [4, 5, 6]),
                    (''C'', num_column [7, 8, 9])]\<rparr>"









definition st_echo :: fitted where
  "st_echo =
     \<lparr>self_X = X_abc, self_cause = ''A'', self_effect = ''B'', self_adjustments = [''C''],
      self_model_cause = Some echo_model, self_model_effect = echo_model,
      self_error_cause =
        \<lparr>sr_name = ''A'', sr_index = [0, 1, 2], sr_column = num_column [- 6, - 6, - 6]\<rparr>,
      self_error_effect =
        \<lparr>sr_name = ''B'', sr_index = [0, 1, 2], sr_column = num_column [3, 3, 3]\<rparr>\<rparr>"

definition X_dup :: frame where
  "X_dup = \<lparr>df_index = [0, 0, 1],
            df_columns = [(''A'', num_column [1, 2, 3]), (''B'', num_column [4, 5, 6]),
                          (''C'', num_column [7, 8, 9])]\<rparr>"

definition st_dup :: fitted where
  "st_dup =
     \<lparr>self_X = X_dup, self_cause = ''A'', self_effect = ''B'', self_adjustments = [''C''],
      self_model_cause = Some zero_model, self_model_effect = zero_model,
      self_error_cause =
        \<lparr>sr_name = ''A'', sr_index = [0, 0, 1], sr_column = num_column [1, 2, 3]\<rparr>,
      self_error_effect =
        \<lparr>sr_name = ''B'', sr_index = [0, 0, 1], sr_column = num_column [4, 5, 6]\<rparr>\<rparr>"

definition X_dup_generated :: frame where
  "X_dup_generated =
     \<lparr>df_index = [0, 0, 0, 0, 1],
      df_columns = [(''A'', num_column [1, 2, 1, 2, 3]), (''B'', num_column [4, 5, 4, 5, 6]),
                    (''C'', num_column [7, 8, 7, 8, 9])]\<rparr>"

section \<open>Rounding\<close>

text \<open>
  Integers below \<open>2 ^ 53\<close> in absolute value are floats; from \<open>2 ^ 53\<close> to
  \<open>2 ^ 54\<close> the floats are the even integers.
\<close>

lemma round_even_of_int [simp]: "round_even (of_int z) = z"
  by (simp add: round_even_def)

lemma bit_length_bound: "2 ^ k \<le> n \<Longrightarrow> n < 2 ^ Suc k \<Longrightarrow> bit_length n = Suc k"
proof (induction k arbitrary: n)
  case 0
  then have "n = 1" by simp
  then show ?case by (simp add: bit_length.simps)
next
  case (Suc k)
  then have "2 ^ k \<le> n div 2" "n div 2 < 2 ^ Suc k" by auto
  from Suc.IH [OF this] Suc.prems show ?case by (subst bit_length.simps) auto
qed

lemma bit_length_le: "n < 2 ^ k \<Longrightarrow> bit_length n \<le> k"
proof (induction k arbitrary: n)
  case 0
  then show ?case by (simp add: bit_length.simps)
next
  case (Suc k)
  then have "n div 2 < 2 ^ k" by auto
  from Suc.IH [OF this] show ?case by (subst bit_length.simps) auto
qed

lemma float64_of_int:
  assumes "\<bar>z\<bar> < 2 ^ 53"
  shows "float64 (of_int z) = of_int z"
proof (cases "z = 0")
  case True
  then show ?thesis by (simp add: float64_def)
next
  case False
  have ab: "\<bar>of_int z :: real\<bar> = of_int \<bar>z\<bar>" by simp
  from False have "1 \<le> \<bar>z\<bar>" by simp
  then have one: "1 \<le> \<bar>of_int z :: real\<bar>" unfolding ab by (simp only: of_int_1_le_iff)
  have "nat \<bar>z\<bar> < 2 ^ 53" using assms by (simp add: nat_less_iff)
  then have "bit_length (nat \<bar>z\<bar>) \<le> 53" by (rule bit_length_le)
  moreover have "\<lfloor>\<bar>of_int z :: real\<bar>\<rfloor> = \<bar>z\<bar>" unfolding ab by (rule floor_of_int)
  ultimately have b: "binary_exponent (of_int z) - 52 \<le> 0"
    using one by (simp add: binary_exponent_def)
  define e where "e = max (binary_exponent (of_int z) - 52) (- 1074)"
  have e: "e \<le> 0" using b by (simp add: e_def)
  define k where "k = nat (- e)"
  have p: "pow2 e = 1 / 2 ^ k"
    using e by (cases "e = 0") (simp_all add: pow2_def k_def)
  have "of_int z / pow2 e = (of_int (z * 2 ^ k) :: real)" by (simp add: p)
  then have "round_even (of_int z / pow2 e) = z * 2 ^ k" by (simp only: round_even_of_int)
  then have "of_int (round_even (of_int z / pow2 e)) * pow2 e = (of_int z :: real)"
    by (simp add: p)
  with False show ?thesis by (simp add: float64_def e_def Let_def)
qed

lemma float64_of_int_large:
  assumes "2 ^ 53 \<le> \<bar>z\<bar>" and "\<bar>z\<bar> < 2 ^ 54"
  shows "float64 (of_int z) = 2 * of_int (round_even (of_int z / 2))"
proof -
  have nz: "z \<noteq> 0" using assms by auto
  have ab: "\<bar>of_int z :: real\<bar> = of_int \<bar>z\<bar>" by simp
  from nz have "1 \<le> \<bar>z\<bar>" by simp
  then have one: "1 \<le> \<bar>of_int z :: real\<bar>" unfolding ab by (simp only: of_int_1_le_iff)
  have "2 ^ 53 \<le> nat \<bar>z\<bar>" "nat \<bar>z\<bar> < 2 ^ Suc 53"
    using assms by (simp_all add: nat_less_iff le_nat_iff)
  then have "bit_length (nat \<bar>z\<bar>) = Suc 53" by (rule bit_length_bound)
  moreover have "\<lfloor>\<bar>of_int z :: real\<bar>\<rfloor> = \<bar>z\<bar>" unfolding ab by (rule floor_of_int)
  ultimately have b: "binary_exponent (of_int z) - 52 = 1"
    using one by (simp add: binary_exponent_def)
  have p: "pow2 1 = 2" by (simp add: pow2_def)
  show ?thesis using nz by (simp add: float64_def b p)
qed

lemma float64_numeral [simp]:
  "(numeral k :: int) < 2 ^ 53 \<Longrightarrow> float64 (numeral k) = numeral k"
  "(numeral k :: int) < 2 ^ 53 \<Longrightarrow> float64 (- numeral k) = - numeral k"
  "float64 0 = 0" "float64 1 = 1"
  using float64_of_int [of "numeral k"] float64_of_int [of "- numeral k"] float64_of_int [of 1]
  by (simp_all add: float64_def)

section \<open>Evaluation of the examples\<close>

lemmas example_defs =
  zero_model_def zero_regressor_def echo_model_def echo_regressor_def coin_model_def
  coin_classifier_def failing_estimator_def example_sklearn_def first_choice_def
  num_column_def lab_column_def X_ab_def X_abc_def X_abcd_def X_a_def X_cat_def names_1d_def
  st_abc_def st_cat_def raising_model_def

lemmas table_defs =
  n_rows_def col_names_def cols_named_def getitem_def getitem_list_def select_columns_def
  put_column_def set_item_def fill_columns_def setitem_array_def setitem_series_def
  reindex_cells_def
  positions_def row_positions_def take_rows_def loc_def iadd_array_def add_array_def
  sub_array_def add_scalar_def set_categorical_def

lemmas fit_defs =
  fit_def validate_fit_def fit_cause_def fit_effect_def check_array_frame_def check_array_names_def reshape_flat_def check_estimator_def
  is_sklearn_estimator_def make_model_def default_model_def make_series_def

lemmas generate_defs =
  generate_def check_arguments_def check_data_dict_def check_callable_def
  check_array_values_def initial_data_def resolve_def by_fitted_model_def
  by_custom_model_def call_custom_model_def wrap_exception_def


lemma fit_ab:
  "fit example_sklearn (DataFrame X_ab) ''A'' ''B'' None None None = Inr st_ab"
  by (simp add: fit_defs table_defs example_defs st_ab_def)

lemma fit_cat:
  "fit example_sklearn (DataFrame X_cat) ''A'' ''B'' (Some (names_1d [''C''])) None None
     = Inr st_cat"
  by (simp add: fit_defs table_defs example_defs)

section \<open>Basic facts\<close>

lemma thenE_eq_Inr:
  "thenE m f = Inr z \<longleftrightarrow> (\<exists>x. m = Inr x \<and> f x = Inr z)"
  by (cases m) simp_all

lemma getitem_Inr:
  "getitem f k = Inr s \<Longrightarrow>
     sr_name s = k \<and> sr_index s = df_index f \<and> cols_named f k = [sr_column s]"
  by (auto simp add: getitem_def split: list.splits)

lemma make_series_Inr:
  "make_series resids y = Inr s \<Longrightarrow>
     sr_name s = sr_name y \<and> sr_index s = sr_index y \<and>
     sr_column s = \<lparr>categorical = False, cells = resids\<rparr> \<and> length resids = length (sr_index y)"
  by (auto simp add: make_series_def split: if_splits)

lemma make_model_Inr:
  assumes "make_model lib X y name model = Inr (fm, s)"
  shows "sr_name s = sr_name y \<and> sr_index s = sr_index y \<and> \<not> categorical (sr_column s) \<and>
         length (cells (sr_column s)) = length (sr_index y) \<and>
         (if categorical (sr_column y)
          then cells (sr_column s) = replicate (n_rows X) NaN
          else \<exists>p. predict fm X = Inr p \<and>
                   sub_array (cells (sr_column y)) p = Inr (cells (sr_column s)))"
  using assms
  by (auto simp add: make_model_def thenE_eq_Inr dest!: make_series_Inr split: if_splits)

lemma zipE_cell_sub_nth:
  "zipE cell_sub xs ps = Inr rs \<Longrightarrow> i < length xs \<Longrightarrow> xs ! i = Num a \<Longrightarrow>
     rs ! i = Num (float64 (a - ps ! i))"
proof (induction cell_sub xs ps arbitrary: rs i rule: zipE.induct)
  case (2 x xs r rs')
  then show ?case
    by (cases i) (auto simp add: thenE_eq_Inr)
qed simp_all

lemma zipE_length:
  "zipE f xs ps = Inr rs \<Longrightarrow> length rs = length xs \<and> length ps = length xs"
proof (induction f xs ps arbitrary: rs rule: zipE.induct)
  case (2 f x xs r rs')
  then show ?case by (auto simp add: thenE_eq_Inr)
qed simp_all

lemma sub_array_length:
  "sub_array xs ps = Inr rs \<Longrightarrow> length rs = length xs \<and> length ps = length xs"
  by (auto simp add: sub_array_def split: if_splits dest: zipE_length)

lemma sub_array_nth:
  "sub_array xs ps = Inr rs \<Longrightarrow> i < length xs \<Longrightarrow> xs ! i = Num a \<Longrightarrow>
     rs ! i = Num (float64 (a - ps ! i))"
  by (auto simp add: sub_array_def split: if_splits dest: zipE_cell_sub_nth)

lemma sub_array_observed_minus_predicted:
  assumes "sub_array xs ps = Inr rs" and "length xs = n"
  shows "\<forall>i a. i < n \<and> xs ! i = Num a \<longrightarrow> rs ! i = Num (float64 (a - ps ! i))"
  using assms sub_array_nth by blast

lemma fit_Inr:
  assumes "fit lib X_arg c e adj_arg mc me = Inr st"
  shows "\<exists>X adj mc' rc me' re.
           validate_fit X_arg c e adj_arg mc me = Inr (X, adj) \<and>
           fit_cause lib X c adj mc = Inr (mc', rc) \<and>
           fit_effect lib X c e adj me = Inr (me', re) \<and>
           st = \<lparr>self_X = X, self_cause = c, self_effect = e, self_adjustments = adj,
                 self_model_cause = mc', self_model_effect = me',
                 self_error_cause = rc, self_error_effect = re\<rparr>"
  using assms by (auto simp add: fit_def thenE_eq_Inr)

lemma validate_fit_Inr:
  "validate_fit X_arg c e adj_arg mc me = Inr (X, adj) \<Longrightarrow>
     X_arg = DataFrame X \<and> check_array_frame 2 X = Inr () \<and>
     c \<in> set (col_names X) \<and> e \<in> set (col_names X)"
  by (cases X_arg) (auto simp add: validate_fit_def thenE_eq_Inr split: if_splits)

lemma getitem_list_index:
  "getitem_list f ks = Inr g \<Longrightarrow> df_index g = df_index f"
  by (auto simp add: getitem_list_def split: list.splits)

lemma make_model_error_series:
  assumes mm: "make_model lib Xf y name model = Inr (fm, s)"
    and idx: "sr_index y = idx" and n: "n_rows Xf = length idx"
  shows "sr_name s = sr_name y \<and> sr_index s = idx \<and>
         length (cells (sr_column s)) = length idx \<and>
         (if categorical (sr_column y)
          then cells (sr_column s) = replicate (length idx) NaN
          else \<exists>p. predict fm Xf = Inr p \<and>
                   sub_array (cells (sr_column y)) p = Inr (cells (sr_column s)) \<and>
                   (\<forall>i a. i < length idx \<and> cells (sr_column y) ! i = Num a \<longrightarrow>
                      cells (sr_column s) ! i = Num (float64 (a - p ! i))))"
proof (cases "categorical (sr_column y)")
  case True
  with make_model_Inr [OF mm] idx n show ?thesis by simp
next
  case False
  with make_model_Inr [OF mm] obtain p where
    p: "predict fm Xf = Inr p"
    and sub: "sub_array (cells (sr_column y)) p = Inr (cells (sr_column s))"
    by auto
  from make_model_Inr [OF mm] idx have
    basics: "sr_name s = sr_name y" "sr_index s = idx" "length (cells (sr_column s)) = length idx"
    by simp_all
  from sub_array_length [OF sub] basics have len: "length (cells (sr_column y)) = length idx"
    by simp
  from sub_array_observed_minus_predicted [OF sub len] p sub basics False
  show ?thesis by auto
qed

section \<open>The cause without adjustments\<close>

text \<open>
  Claim C1. With no adjustments \<^verbatim>\<open>fit\<close> stores no cause model and the raw cause
  column as its error series. The claim goes on: a later \<^verbatim>\<open>generate\<close> without an
  endogenous intervention on the cause and without a custom cause model leaves the cause
  column at that raw value. The source does not: \<^verbatim>\<open>generate\<close> reads
  \<^verbatim>\<open>self.model_cause_.predict\<close> of the absent model and stops with an
  AttributeError. Evaluated here on a table of two continuous columns.
\<close>

theorem generate_without_adjustments_raises:
  "\<exists>st. fit example_sklearn (DataFrame X_ab) ''A'' ''B'' None None None = Inr st \<and>
     self_model_cause st = None \<and>
     self_error_cause st =
       \<lparr>sr_name = ''A'', sr_index = [0, 1, 2], sr_column = num_column [1, 2, 3]\<rparr> \<and>
     generate first_choice st NoneArg NoneArg NoModel () NoModel () 0 =
       (Inl (AttributeError ''NoneType object has no attribute predict''), 0)"
  by (simp add: fit_defs generate_defs table_defs example_defs)

section \<open>Validation in \<^verbatim>\<open>fit\<close>\<close>

text \<open>
  Claim C6, amended. \<^verbatim>\<open>fit\<close> checks its arguments in a fixed order, and every
  failure below is returned whatever the later arguments and whatever estimators are
  supplied, so before any model is trained and with no attribute written. First an
  \<open>X\<close> that is no DataFrame is a TypeError. Second comes \<^verbatim>\<open>check_array\<close> on
  \<open>X\<close>: whatever it raises is the result, and for a table without NaN, with at
  least one row and with fewer than two columns it raises the ValueError for too few
  features. Third a cause that is no column of \<open>X\<close> is a ValueError; fourth an
  effect that is no column is a ValueError. Fifth an array of adjustments with three or
  more dimensions is a ValueError, and so is a two-dimensional one without columns. The
  fifth check does not ask for a flat sequence: any other array of at most two
  dimensions is accepted and used as its flattening.
\<close>

theorem fit_validation_order:
  "fit lib NotDataFrame c e adj mc me = Inl (TypeError ''X shall be a pandas.DataFrame.'')
   \<and> (check_array_frame 2 X0 = Inl err \<longrightarrow>
        fit lib (DataFrame X0) c e adj mc me = Inl err)
   \<and> (\<not> list_ex (\<lambda>p. NaN \<in> set (cells (snd p))) (df_columns X1) \<and> 1 \<le> n_rows X1 \<and>
        length (df_columns X1) < 2 \<longrightarrow>
        fit lib (DataFrame X1) c e adj mc me =
          Inl (ValueError ''Found array with too few feature(s)''))
   \<and> (check_array_frame 2 X2 = Inr () \<and> c2 \<notin> set (col_names X2) \<longrightarrow>
        fit lib (DataFrame X2) c2 e adj mc me =
          Inl (ValueError ''cause isn't exist in X.columns.''))
   \<and> (check_array_frame 2 X3 = Inr () \<and> c3 \<in> set (col_names X3) \<and>
        e3 \<notin> set (col_names X3) \<longrightarrow>
        fit lib (DataFrame X3) c3 e3 adj mc me =
          Inl (ValueError ''effect isn't exist in X.columns.''))
   \<and> (check_array_frame 2 X4 = Inr () \<and> c4 \<in> set (col_names X4) \<and>
        e4 \<in> set (col_names X4) \<and> 3 \<le> length (nd_shape a4) \<longrightarrow>
        fit lib (DataFrame X4) c4 e4 (Some a4) mc me =
          Inl (ValueError ''Found array with dim >= 3. None expected <= 2.''))
   \<and> (check_array_frame 2 X4 = Inr () \<and> c4 \<in> set (col_names X4) \<and>
        e4 \<in> set (col_names X4) \<and> length (nd_shape b4) = 2 \<and> nd_shape b4 ! 1 < 1 \<longrightarrow>
        fit lib (DataFrame X4) c4 e4 (Some b4) mc me =
          Inl (ValueError ''Found array with 0 feature(s) while a minimum of 1 is required''))
   \<and> (length (nd_shape a5) \<le> 2 \<and> (length (nd_shape a5) = 2 \<longrightarrow> 1 \<le> nd_shape a5 ! 1) \<longrightarrow>
        fit lib X5 c5 e5 (Some a5) mc me =
        fit lib X5 c5 e5 (Some \<lparr>nd_shape = [length (nd_data a5)], nd_data = nd_data a5\<rparr>) mc me)"
  apply (intro conjI impI)
  subgoal by (simp add: fit_def validate_fit_def)
  subgoal by (simp add: fit_def validate_fit_def)
  subgoal by (simp add: fit_def validate_fit_def check_array_frame_def)
  subgoal by (simp add: fit_def validate_fit_def)
  subgoal by (simp add: fit_def validate_fit_def)
  subgoal by (simp add: fit_def validate_fit_def check_array_names_def)
  subgoal by (simp add: fit_def validate_fit_def check_array_names_def)
  subgoal by (cases X5) (auto simp add: fit_def validate_fit_def check_array_names_def reshape_flat_def)
  done

theorem fit_validation_order_witness:
  "fit example_sklearn NotDataFrame ''Z'' ''Z''
        (Some \<lparr>nd_shape = [1, 1, 1], nd_data = [''A'']\<rparr>) None None
     = Inl (TypeError ''X shall be a pandas.DataFrame.'')
   \<and> check_array_frame 2 X_a = Inl (ValueError ''Found array with too few feature(s)'')
   \<and> fit example_sklearn (DataFrame X_a) ''Z'' ''Z''
        (Some \<lparr>nd_shape = [1, 1, 1], nd_data = [''A'']\<rparr>) None None
       = Inl (ValueError ''Found array with too few feature(s)'')
   \<and> check_array_frame 2 X_ab = Inr () \<and> ''Z'' \<notin> set (col_names X_ab)
   \<and> fit example_sklearn (DataFrame X_ab) ''Z'' ''Z''
        (Some \<lparr>nd_shape = [1, 1, 1], nd_data = [''A'']\<rparr>) None None
       = Inl (ValueError ''cause isn't exist in X.columns.'')
   \<and> ''A'' \<in> set (col_names X_ab)
   \<and> fit example_sklearn (DataFrame X_ab) ''A'' ''Z''
        (Some \<lparr>nd_shape = [1, 1, 1], nd_data = [''A'']\<rparr>) None None
       = Inl (ValueError ''effect isn't exist in X.columns.'')
   \<and> ''B'' \<in> set (col_names X_ab)
   \<and> fit example_sklearn (DataFrame X_ab) ''A'' ''B''
        (Some \<lparr>nd_shape = [1, 1, 1], nd_data = [''A'']\<rparr>) None None
       = Inl (ValueError ''Found array with dim >= 3. None expected <= 2.'')
   \<and> fit example_sklearn (DataFrame X_ab) ''A'' ''B''
        (Some \<lparr>nd_shape = [1, 0], nd_data = []\<rparr>) None None
       = Inl (ValueError ''Found array with 0 feature(s) while a minimum of 1 is required'')
   \<and> fit example_sklearn (DataFrame X_abc) ''A'' ''B''
        (Some \<lparr>nd_shape = [1, 1], nd_data = [''C'']\<rparr>) None None
     = fit example_sklearn (DataFrame X_abc) ''A'' ''B'' (Some (names_1d [''C''])) None None"
proof -
  let ?deep = "Some \<lparr>nd_shape = [1, 1, 1], nd_data = [''A'']\<rparr>"
  have a: "check_array_frame 2 X_a = Inl (ValueError ''Found array with too few feature(s)'')"
    by (simp add: check_array_frame_def table_defs example_defs)
  have b: "check_array_frame 2 X_ab = Inr ()"
    by (simp add: check_array_frame_def table_defs example_defs)
  have n: "''Z'' \<notin> set (col_names X_ab)" "''A'' \<in> set (col_names X_ab)"
    "''B'' \<in> set (col_names X_ab)"
    by (simp_all add: table_defs example_defs)
  note t = fit_validation_order [where lib = example_sklearn and mc = None and me = None
      and c = "''Z''" and e = "''Z''" and adj = ?deep
      and ?X0.0 = X_a and err = "ValueError ''Found array with too few feature(s)''"
      and ?X1.0 = X_a and ?X2.0 = X_ab and ?c2.0 = "''Z''"
      and ?X3.0 = X_ab and ?c3.0 = "''A''" and ?e3.0 = "''Z''"
      and ?X4.0 = X_ab and ?c4.0 = "''A''" and ?e4.0 = "''B''"
      and ?a4.0 = "\<lparr>nd_shape = [1, 1, 1], nd_data = [''A'']\<rparr>"
      and ?b4.0 = "\<lparr>nd_shape = [1, 0], nd_data = []\<rparr>"
      and ?a5.0 = "\<lparr>nd_shape = [1, 1], nd_data = [''C'']\<rparr>" and ?X5.0 = "DataFrame X_abc"
      and ?c5.0 = "''A''" and ?e5.0 = "''B''"]
  have 1: "fit example_sklearn NotDataFrame ''Z'' ''Z'' ?deep None None
     = Inl (TypeError ''X shall be a pandas.DataFrame.'')"
    using t by simp
  have 2: "fit example_sklearn (DataFrame X_a) ''Z'' ''Z'' ?deep None None
       = Inl (ValueError ''Found array with too few feature(s)'')"
    using t a by simp
  have 3: "fit example_sklearn (DataFrame X_ab) ''Z'' ''Z'' ?deep None None
       = Inl (ValueError ''cause isn't exist in X.columns.'')"
    using t b n by simp
  have 4: "fit example_sklearn (DataFrame X_ab) ''A'' ''Z'' ?deep None None
       = Inl (ValueError ''effect isn't exist in X.columns.'')"
    using t b n by simp
  have 5: "fit example_sklearn (DataFrame X_ab) ''A'' ''B'' ?deep None None
       = Inl (ValueError ''Found array with dim >= 3. None expected <= 2.'')"
    using t b n by simp
  have 6: "fit example_sklearn (DataFrame X_ab) ''A'' ''B''
        (Some \<lparr>nd_shape = [1, 0], nd_data = []\<rparr>) None None
       = Inl (ValueError ''Found array with 0 feature(s) while a minimum of 1 is required'')"
    using t b n by simp
  have 7: "fit example_sklearn (DataFrame X_abc) ''A'' ''B''
        (Some \<lparr>nd_shape = [1, 1], nd_data = [''C'']\<rparr>) None None
     = fit example_sklearn (DataFrame X_abc) ''A'' ''B'' (Some (names_1d [''C''])) None None"
    using t by (simp add: names_1d_def)
  from 1 2 3 4 5 6 7 a b n show ?thesis by simp
qed

text \<open>
  The claim as stated fails: a nested, two-dimensional array of adjustment names is
  not refused; \<^verbatim>\<open>fit\<close> succeeds and stores the flattened names.
\<close>

theorem nested_adjustments_accepted:
  "\<exists>st. fit example_sklearn (DataFrame X_abc) ''A'' ''B''
          (Some \<lparr>nd_shape = [1, 1], nd_data = [''C'']\<rparr>) None None = Inr st
        \<and> self_adjustments st = [''C'']"
  by (simp add: fit_defs table_defs example_defs)

section \<open>Validation in \<^verbatim>\<open>generate\<close>\<close>

lemma check_items_append:
  "check_items st (pre @ rest) =
     thenE (check_items st pre) (\<lambda>a. thenE (check_items st rest) (\<lambda>b. Inr (a @ b)))"
proof (induction pre)
  case Nil
  show ?case by (cases "check_items st rest") simp_all
next
  case (Cons p pre)
  obtain key vs where p: "p = (key, vs)" by (cases p)
  show ?case
  proof (cases key)
    case (OtherKey r)
    with p show ?thesis by simp
  next
    case (StrKey name)
    show ?thesis
      using p StrKey Cons.IH
      by (cases "check_array_values vs"; cases "check_items st pre"; cases "check_items st rest")
         simp_all
  qed
qed

text \<open>
  Claim C5. An intervention argument that is not a dict is a TypeError. In a dict the
  items are checked in iteration order and the first offending item decides: a key that
  is no \<^verbatim>\<open>str\<close> is a TypeError; a key that is not the cause, the effect or an
  adjustment is a ValueError; an array whose length is not the number of rows of the
  fitted table is a ValueError. When the check of either argument fails,
  \<^verbatim>\<open>generate\<close> returns that error and nothing else: no table, the generator
  state as it was, whatever models and mechanisms are given (the working table is built
  only after the checks). The fitted attributes are only read by \<open>generate\<close>.
\<close>

theorem generate_rejects_bad_interventions:
  "check_data_dict st NotDict name = Inl (TypeError (name @ '' shall be a dictionary.''))
   \<and> (check_items st pre1 = Inr ok1 \<longrightarrow>
        check_data_dict st (Dict (pre1 @ (OtherKey r, vs1) # post1)) name1
          = Inl (TypeError (''A key of '' @ r @ '' shall be str.'')))
   \<and> (check_items st pre2 = Inr ok2 \<and>
        k2 \<notin> set (self_cause st # self_effect st # self_adjustments st) \<longrightarrow>
        check_data_dict st (Dict (pre2 @ (StrKey k2, vs2) # post2)) name2
          = Inl (ValueError (''Keys of '' @ k2 @
                   '' shall be cause or effect or a element of adjustments.'')))
   \<and> (check_items st pre3 = Inr ok3 \<and>
        k3 \<in> set (self_cause st # self_effect st # self_adjustments st) \<and>
        length vs3 \<noteq> n_rows (self_X st) \<longrightarrow>
        (\<exists>m. check_data_dict st (Dict (pre3 @ (StrKey k3, vs3) # post3)) name3
               = Inl (ValueError m)))
   \<and> (check_data_dict st endog4 ''interv_endog'' = Inl e4 \<longrightarrow>
        generate choice st endog4 exog4 cm ca em ea rs = (Inl e4, rs))
   \<and> (check_data_dict st endog5 ''interv_endog'' = Inr ok5 \<and>
        check_data_dict st exog5 ''interv_exog'' = Inl e5 \<longrightarrow>
        generate choice st endog5 exog5 cm ca em ea rs = (Inl e5, rs))"
  apply (intro conjI impI)
  subgoal by (simp add: check_data_dict_def)
  subgoal by (simp add: check_data_dict_def check_items_append)
  subgoal by (simp add: check_data_dict_def check_items_append)
  subgoal by (auto simp add: check_data_dict_def check_items_append check_array_values_def)
  subgoal by (simp add: generate_def check_arguments_def)
  subgoal by (simp add: generate_def check_arguments_def)
  done

theorem generate_rejects_bad_interventions_witness:
  "check_data_dict st_abc NotDict ''interv_endog''
     = Inl (TypeError ''interv_endog shall be a dictionary.'')
   \<and> check_items st_abc [(StrKey ''C'', [Num 1, Num 1, Num 1])] = Inr [(''C'', [Num 1, Num 1, Num 1])]
   \<and> check_data_dict st_abc
        (Dict [(StrKey ''C'', [Num 1, Num 1, Num 1]), (OtherKey ''5'', [Num 1, Num 1, Num 1])])
        ''interv_endog''
       = Inl (TypeError ''A key of 5 shall be str.'')
   \<and> ''Q'' \<notin> set (self_cause st_abc # self_effect st_abc # self_adjustments st_abc)
   \<and> check_data_dict st_abc
        (Dict [(StrKey ''C'', [Num 1, Num 1, Num 1]), (StrKey ''Q'', [Num 1, Num 1, Num 1])])
        ''interv_endog''
       = Inl (ValueError ''Keys of Q shall be cause or effect or a element of adjustments.'')
   \<and> ''A'' \<in> set (self_cause st_abc # self_effect st_abc # self_adjustments st_abc)
   \<and> length [Num 1, Num 2] \<noteq> n_rows (self_X st_abc)
   \<and> (\<exists>m. check_data_dict st_abc
        (Dict [(StrKey ''C'', [Num 1, Num 1, Num 1]), (StrKey ''A'', [Num 1, Num 2])])
        ''interv_endog'' = Inl (ValueError m))
   \<and> generate first_choice st_abc (Dict [(StrKey ''A'', [Num 1, Num 2])]) NoneArg
        NoModel () NoModel () 0
       = (Inl (ValueError ''shape[0] of A shall be the same as X.shape[0].''), 0)
   \<and> generate first_choice st_abc NoneArg NotDict NoModel () NoModel () 0
       = (Inl (TypeError ''interv_exog shall be a dictionary.''), 0)"
  using generate_rejects_bad_interventions [where st = st_abc and name = "''interv_endog''"
      and ?pre1.0 = "[(StrKey ''C'', [Num 1, Num 1, Num 1])]"
      and ?ok1.0 = "[(''C'', [Num 1, Num 1, Num 1])]" and r = "''5''"
      and ?vs1.0 = "[Num 1, Num 1, Num 1]" and ?post1.0 = "[]" and ?name1.0 = "''interv_endog''"
      and ?pre2.0 = "[(StrKey ''C'', [Num 1, Num 1, Num 1])]"
      and ?ok2.0 = "[(''C'', [Num 1, Num 1, Num 1])]" and ?k2.0 = "''Q''"
      and ?vs2.0 = "[Num 1, Num 1, Num 1]" and ?post2.0 = "[]" and ?name2.0 = "''interv_endog''"
      and ?pre3.0 = "[(StrKey ''C'', [Num 1, Num 1, Num 1])]"
      and ?ok3.0 = "[(''C'', [Num 1, Num 1, Num 1])]" and ?k3.0 = "''A''"
      and ?vs3.0 = "[Num 1, Num 2]" and ?post3.0 = "[]" and ?name3.0 = "''interv_endog''"
      and ?endog4.0 = "Dict [(StrKey ''A'', [Num 1, Num 2])]"
      and ?e4.0 = "ValueError ''shape[0] of A shall be the same as X.shape[0].''"
      and ?exog4.0 = NoneArg and choice = first_choice and cm = NoModel and ca = "()"
      and em = NoModel and ea = "()" and rs = 0
      and ?endog5.0 = NoneArg and ?ok5.0 = "[]" and ?exog5.0 = NotDict
      and ?e5.0 = "TypeError ''interv_exog shall be a dictionary.''"]
  by (simp add: generate_defs table_defs example_defs)

section \<open>Failures of the delegates\<close>

text \<open>
  Claim C9. An exception raised by the \<^verbatim>\<open>fit\<close> of a supplied estimator is
  returned by \<^verbatim>\<open>_make_model\<close>, and so by \<^verbatim>\<open>fit\<close>, as a RuntimeError whose
  text names \<^verbatim>\<open>model_cause\<close> or \<^verbatim>\<open>model_effect\<close> and ends with the text of the
  exception. An exception raised by a custom \<^verbatim>\<open>cause_model\<close> or
  \<^verbatim>\<open>effect_model\<close> is returned by \<^verbatim>\<open>generate\<close> as a RuntimeError that names
  the mechanism and ends with the text of the exception. In both cases the call is made
  once and its failure is the result. (An exception here is an instance of
  \<^verbatim>\<open>Exception\<close>, the class the source catches.)
\<close>

theorem delegate_failures_are_wrapped:
  "(est_fit m X y = Inl err \<longrightarrow>
      make_model lib X y name (Some m) = Inl (RuntimeError (name @ ''.fit(): '' @ str_of err)))
   \<and> (validate_fit X_arg c e adj_arg (Some mc) me = Inr (X1, adj) \<and> adj \<noteq> [] \<and>
        getitem_list X1 adj = Inr Xa \<and> getitem X1 c = Inr yc \<and> est_fit mc Xa yc = Inl err1 \<longrightarrow>
      fit lib X_arg c e adj_arg (Some mc) me
        = Inl (RuntimeError (''model_cause.fit(): '' @ str_of err1)))
   \<and> (validate_fit X_arg2 c2 e2 adj_arg2 mc2 (Some me2) = Inr (X2, adj2) \<and>
        fit_cause lib X2 c2 adj2 mc2 = Inr r2 \<and>
        getitem_list X2 (c2 # adj2) = Inr Xe \<and> getitem X2 e2 = Inr ye \<and>
        est_fit me2 Xe ye = Inl err2 \<longrightarrow>
      fit lib X_arg2 c2 e2 adj_arg2 mc2 (Some me2)
        = Inl (RuntimeError (''model_effect.fit(): '' @ str_of err2)))
   \<and> (check_arguments st endog_arg exog_arg (Callable g) em = Inr (endog, exog) \<and>
        initial_data st exog = Inr g0 \<and> map_of endog (self_cause st) = None \<and>
        getitem_list g0 (self_adjustments st) = Inr Xf \<and>
        getitem g0 (self_cause st) = Inr s \<and> g Xf s args = Inl err3 \<longrightarrow>
      generate choice st endog_arg exog_arg (Callable g) args em ea rs
        = (Inl (RuntimeError (''Exception: cause_model: '' @ str_of err3)), rs))
   \<and> (check_arguments st' endog_arg' exog_arg' cm' (Callable g') = Inr (endog', exog') \<and>
        initial_data st' exog' = Inr g0' \<and>
        resolve choice st' endog' (self_cause st') (self_adjustments st') ''cause_model''
          (self_model_cause st') cm' ca' g0' rs0 = (Inr g1, rs1) \<and>
        map_of endog' (self_effect st') = None \<and>
        getitem_list g1 (self_cause st' # self_adjustments st') = Inr Xf' \<and>
        getitem g1 (self_effect st') = Inr s' \<and> g' Xf' s' args' = Inl err4 \<longrightarrow>
      generate choice st' endog_arg' exog_arg' cm' ca' (Callable g') args' rs0
        = (Inl (RuntimeError (''Exception: effect_model: '' @ str_of err4)), rs1))"
  apply (intro conjI impI)
  subgoal by (simp add: make_model_def)
  subgoal by (simp add: fit_def fit_cause_def make_model_def)
  subgoal by (cases r2) (simp add: fit_def fit_effect_def make_model_def)
  subgoal by (simp add: generate_def resolve_def by_custom_model_def call_custom_model_def wrap_exception_def)
  subgoal by (simp add: generate_def resolve_def by_custom_model_def call_custom_model_def wrap_exception_def)
  done

theorem delegate_failures_witness:
  "est_fit failing_estimator X_ab \<lparr>sr_name = ''A'', sr_index = [0, 1, 2], sr_column = num_column [1, 2, 3]\<rparr>
     = Inl (ValueError ''boom'')
   \<and> make_model example_sklearn X_ab
        \<lparr>sr_name = ''A'', sr_index = [0, 1, 2], sr_column = num_column [1, 2, 3]\<rparr>
        ''model_cause'' (Some failing_estimator)
       = Inl (RuntimeError ''model_cause.fit(): boom'')
   \<and> fit example_sklearn (DataFrame X_abc) ''A'' ''B'' (Some (names_1d [''C'']))
        (Some failing_estimator) None
       = Inl (RuntimeError ''model_cause.fit(): boom'')
   \<and> fit example_sklearn (DataFrame X_abc) ''A'' ''B'' (Some (names_1d [''C'']))
        None (Some failing_estimator)
       = Inl (RuntimeError ''model_effect.fit(): boom'')
   \<and> generate first_choice st_abc NoneArg NoneArg (Callable raising_model) () NoModel () 0
       = (Inl (RuntimeError ''Exception: cause_model: bad''), 0)
   \<and> generate first_choice st_abc NoneArg NoneArg NoModel () (Callable raising_model) () 0
       = (Inl (RuntimeError ''Exception: effect_model: bad''), 0)"
  using delegate_failures_are_wrapped [where m = failing_estimator and X = X_ab
      and y = "\<lparr>sr_name = ''A'', sr_index = [0, 1, 2], sr_column = num_column [1, 2, 3]\<rparr>"
      and err = "ValueError ''boom''" and lib = example_sklearn and name = "''model_cause''"
      and X_arg = "DataFrame X_abc" and c = "''A''" and e = "''B''"
      and adj_arg = "Some (names_1d [''C''])" and mc = failing_estimator and me = None
      and ?X1.0 = X_abc and adj = "[''C'']"
      and Xa = "X_abc\<lparr>df_columns := [(''C'', num_column [7, 8, 9])]\<rparr>"
      and yc = "\<lparr>sr_name = ''A'', sr_index = [0, 1, 2], sr_column = num_column [1, 2, 3]\<rparr>"
      and ?err1.0 = "ValueError ''boom''"
      and ?X_arg2.0 = "DataFrame X_abc" and ?c2.0 = "''A''" and ?e2.0 = "''B''"
      and ?adj_arg2.0 = "Some (names_1d [''C''])" and ?mc2.0 = None and ?me2.0 = failing_estimator
      and ?X2.0 = X_abc and ?adj2.0 = "[''C'']"
      and ?r2.0 = "(Some zero_model, \<lparr>sr_name = ''A'', sr_index = [0, 1, 2], sr_column = num_column [1, 2, 3]\<rparr>)"
      and Xe = "X_abc\<lparr>df_columns := [(''A'', num_column [1, 2, 3]), (''C'', num_column [7, 8, 9])]\<rparr>"
      and ye = "\<lparr>sr_name = ''B'', sr_index = [0, 1, 2], sr_column = num_column [4, 5, 6]\<rparr>"
      and ?err2.0 = "ValueError ''boom''"
      and st = st_abc and endog_arg = NoneArg and exog_arg = NoneArg and g = raising_model
      and em = NoModel and endog = "[]" and exog = "[]"
      and ?g0.0 = "\<lparr>df_index = [0, 1, 2], df_columns = [(''A'', num_column [1, 2, 3]),
                     (''B'', num_column [4, 5, 6]), (''C'', num_column [7, 8, 9])]\<rparr>"
      and Xf = "\<lparr>df_index = [0, 1, 2], df_columns = [(''C'', num_column [7, 8, 9])]\<rparr>"
      and s = "\<lparr>sr_name = ''A'', sr_index = [0, 1, 2], sr_column = num_column [1, 2, 3]\<rparr>"
      and args = "()" and ?err3.0 = "ValueError ''bad''" and choice = first_choice and ea = "()"
      and rs = 0
      and st' = st_abc and endog_arg' = NoneArg and exog_arg' = NoneArg and cm' = NoModel
      and g' = raising_model and endog' = "[]" and exog' = "[]"
      and ?g0' = "\<lparr>df_index = [0, 1, 2], df_columns = [(''A'', num_column [1, 2, 3]),
                     (''B'', num_column [4, 5, 6]), (''C'', num_column [7, 8, 9])]\<rparr>"
      and ca' = "()" and ?rs0.0 = 0
      and ?g1.0 = "\<lparr>df_index = [0, 1, 2], df_columns = [(''A'', num_column [1, 2, 3]),
                     (''B'', num_column [4, 5, 6]), (''C'', num_column [7, 8, 9])]\<rparr>"
      and ?rs1.0 = 0
      and Xf' = "\<lparr>df_index = [0, 1, 2], df_columns = [(''A'', num_column [1, 2, 3]), (''C'', num_column [7, 8, 9])]\<rparr>"
      and s' = "\<lparr>sr_name = ''B'', sr_index = [0, 1, 2], sr_column = num_column [4, 5, 6]\<rparr>"
      and args' = "()" and ?err4.0 = "ValueError ''bad''"]
  by (simp add: fit_defs generate_defs table_defs example_defs)

section \<open>Determinism for continuous variables\<close>

text \<open>
  Claim C10. When the fitted cause and effect columns are both continuous and no custom
  mechanism is supplied, \<^verbatim>\<open>generate\<close> returns the generator state it was given,
  and its result is the same for every generator and every generator state: the random
  stream is used in the categorical branches only. (Fitted models are functions here:
  their \<^verbatim>\<open>predict\<close> is deterministic.)
\<close>

theorem generate_deterministic_when_continuous:
  assumes "getitem (self_X st) (self_cause st) = Inr xc" and "\<not> categorical (sr_column xc)"
    and "getitem (self_X st) (self_effect st) = Inr xe" and "\<not> categorical (sr_column xe)"
  shows "snd (generate choice st interv_endog interv_exog NoModel ca NoModel ea rs) = rs
       \<and> fst (generate choice' st interv_endog interv_exog NoModel ca NoModel ea rs')
         = fst (generate choice st interv_endog interv_exog NoModel ca NoModel ea rs)"
  using assms
  by (auto simp add: generate_def resolve_def by_fitted_model_def
      split: sum.splits prod.splits option.splits)

theorem generate_deterministic_witness:
  "getitem (self_X st_abc) (self_cause st_abc)
     = Inr \<lparr>sr_name = ''A'', sr_index = [0, 1, 2], sr_column = num_column [1, 2, 3]\<rparr>
   \<and> \<not> categorical (num_column [1, 2, 3])
   \<and> getitem (self_X st_abc) (self_effect st_abc)
     = Inr \<lparr>sr_name = ''B'', sr_index = [0, 1, 2], sr_column = num_column [4, 5, 6]\<rparr>
   \<and> \<not> categorical (num_column [4, 5, 6])
   \<and> snd (generate first_choice st_abc NoneArg NoneArg NoModel () NoModel () 7) = 7
   \<and> fst (generate first_choice st_abc NoneArg NoneArg NoModel () NoModel () 0)
       = fst (generate first_choice st_abc NoneArg NoneArg NoModel () NoModel () 7)"
proof -
  have c: "getitem (self_X st_abc) (self_cause st_abc)
     = Inr \<lparr>sr_name = ''A'', sr_index = [0, 1, 2], sr_column = num_column [1, 2, 3]\<rparr>"
    by (simp add: table_defs example_defs)
  have e: "getitem (self_X st_abc) (self_effect st_abc)
     = Inr \<lparr>sr_name = ''B'', sr_index = [0, 1, 2], sr_column = num_column [4, 5, 6]\<rparr>"
    by (simp add: table_defs example_defs)
  have nc: "\<not> categorical (sr_column \<lparr>sr_name = ''A'', sr_index = [0, 1, 2], sr_column = num_column [1, 2, 3]\<rparr>)"
    by (simp add: num_column_def)
  have ne: "\<not> categorical (sr_column \<lparr>sr_name = ''B'', sr_index = [0, 1, 2], sr_column = num_column [4, 5, 6]\<rparr>)"
    by (simp add: num_column_def)
  from generate_deterministic_when_continuous [OF c nc e ne,
      where choice = first_choice and choice' = first_choice and rs = 7 and rs' = 0
        and interv_endog = NoneArg and interv_exog = NoneArg and ca = "()" and ea = "()"]
  show ?thesis using c e by (simp add: num_column_def)
qed

section \<open>The stored error series\<close>

text \<open>
  Claim C7, amended. After \<^verbatim>\<open>fit\<close>, the error series of the effect, and that of
  the cause when there is at least one adjustment, carries the name of the variable and
  the row index of \<open>X\<close> and has one entry per row. For a continuous variable it is
  the observed column minus the prediction of the fitted model on the feature columns,
  entry by entry and rounded to a float; for a categorical variable it is NaN in every
  row. With no adjustments no cause model is fitted and the error series of the cause
  is the cause column of \<open>X\<close> as it stands, labels included when it is categorical.
\<close>

theorem fit_error_series:
  assumes "fit lib (DataFrame X) c e adj_arg mc me = Inr st"
  shows "(\<exists>ye Xe. getitem X e = Inr ye \<and> getitem_list X (c # self_adjustments st) = Inr Xe \<and>
            sr_name (self_error_effect st) = e \<and>
            sr_index (self_error_effect st) = df_index X \<and>
            length (cells (sr_column (self_error_effect st))) = n_rows X \<and>
            (if categorical (sr_column ye)
             then cells (sr_column (self_error_effect st)) = replicate (n_rows X) NaN
             else \<exists>p. predict (self_model_effect st) Xe = Inr p \<and>
                      sub_array (cells (sr_column ye)) p
                        = Inr (cells (sr_column (self_error_effect st))) \<and>
                      (\<forall>i a. i < n_rows X \<and> cells (sr_column ye) ! i = Num a \<longrightarrow>
                         cells (sr_column (self_error_effect st)) ! i = Num (float64 (a - p ! i)))))
       \<and> (self_adjustments st \<noteq> [] \<longrightarrow>
           (\<exists>m yc Xa. self_model_cause st = Some m \<and>
            getitem X c = Inr yc \<and> getitem_list X (self_adjustments st) = Inr Xa \<and>
            sr_name (self_error_cause st) = c \<and>
            sr_index (self_error_cause st) = df_index X \<and>
            length (cells (sr_column (self_error_cause st))) = n_rows X \<and>
            (if categorical (sr_column yc)
             then cells (sr_column (self_error_cause st)) = replicate (n_rows X) NaN
             else \<exists>p. predict m Xa = Inr p \<and>
                      sub_array (cells (sr_column yc)) p
                        = Inr (cells (sr_column (self_error_cause st))) \<and>
                      (\<forall>i a. i < n_rows X \<and> cells (sr_column yc) ! i = Num a \<longrightarrow>
                         cells (sr_column (self_error_cause st)) ! i = Num (float64 (a - p ! i))))))
       \<and> (self_adjustments st = [] \<longrightarrow>
           self_model_cause st = None \<and> getitem X c = Inr (self_error_cause st))"
proof -
  from fit_Inr [OF assms] obtain X' adj mc' rc me' re where
    v: "validate_fit (DataFrame X) c e adj_arg mc me = Inr (X', adj)"
    and fc: "fit_cause lib X' c adj mc = Inr (mc', rc)"
    and fe: "fit_effect lib X' c e adj me = Inr (me', re)"
    and st: "st = \<lparr>self_X = X', self_cause = c, self_effect = e, self_adjustments = adj,
                 self_model_cause = mc', self_model_effect = me',
                 self_error_cause = rc, self_error_effect = re\<rparr>"
    by blast
  from validate_fit_Inr [OF v] have X': "X' = X" by simp
  from fe X' obtain Xe ye where
    Xe: "getitem_list X (c # adj) = Inr Xe" and ye: "getitem X e = Inr ye"
    and me: "make_model lib Xe ye ''model_effect'' me = Inr (me', re)"
    by (auto simp add: fit_effect_def thenE_eq_Inr)
  have nXe: "n_rows Xe = length (df_index X)"
    using getitem_list_index [OF Xe] by (simp add: n_rows_def)
  from getitem_Inr [OF ye] have ge: "sr_name ye = e" "sr_index ye = df_index X" by simp_all
  from make_model_error_series [OF me ge(2) nXe] ye Xe ge st
  have effect: "\<exists>ye Xe. getitem X e = Inr ye \<and> getitem_list X (c # self_adjustments st) = Inr Xe \<and>
            sr_name (self_error_effect st) = e \<and>
            sr_index (self_error_effect st) = df_index X \<and>
            length (cells (sr_column (self_error_effect st))) = n_rows X \<and>
            (if categorical (sr_column ye)
             then cells (sr_column (self_error_effect st)) = replicate (n_rows X) NaN
             else \<exists>p. predict (self_model_effect st) Xe = Inr p \<and>
                      sub_array (cells (sr_column ye)) p
                        = Inr (cells (sr_column (self_error_effect st))) \<and>
                      (\<forall>i a. i < n_rows X \<and> cells (sr_column ye) ! i = Num a \<longrightarrow>
                         cells (sr_column (self_error_effect st)) ! i = Num (float64 (a - p ! i))))"
    by (intro exI [of _ ye] exI [of _ Xe]) (simp add: n_rows_def)
  have cause: "\<exists>m yc Xa. self_model_cause st = Some m \<and>
            getitem X c = Inr yc \<and> getitem_list X (self_adjustments st) = Inr Xa \<and>
            sr_name (self_error_cause st) = c \<and>
            sr_index (self_error_cause st) = df_index X \<and>
            length (cells (sr_column (self_error_cause st))) = n_rows X \<and>
            (if categorical (sr_column yc)
             then cells (sr_column (self_error_cause st)) = replicate (n_rows X) NaN
             else \<exists>p. predict m Xa = Inr p \<and>
                      sub_array (cells (sr_column yc)) p
                        = Inr (cells (sr_column (self_error_cause st))) \<and>
                      (\<forall>i a. i < n_rows X \<and> cells (sr_column yc) ! i = Num a \<longrightarrow>
                         cells (sr_column (self_error_cause st)) ! i = Num (float64 (a - p ! i))))"
    if ne: "self_adjustments st \<noteq> []"
  proof -
    from ne st have "adj \<noteq> []" by simp
    with fc X' obtain Xa yc m where
      Xa: "getitem_list X adj = Inr Xa" and yc: "getitem X c = Inr yc"
      and mm: "make_model lib Xa yc ''model_cause'' mc = Inr (m, rc)" and mc': "mc' = Some m"
      by (auto simp add: fit_cause_def thenE_eq_Inr split: if_splits)
    have nXa: "n_rows Xa = length (df_index X)"
      using getitem_list_index [OF Xa] by (simp add: n_rows_def)
    from getitem_Inr [OF yc] have gc: "sr_name yc = c" "sr_index yc = df_index X" by simp_all
    from make_model_error_series [OF mm gc(2) nXa] yc Xa gc st mc'
    show ?thesis
      by (intro exI [of _ m] exI [of _ yc] exI [of _ Xa]) (simp add: n_rows_def)
  qed
  have raw: "self_model_cause st = None \<and> getitem X c = Inr (self_error_cause st)"
    if "self_adjustments st = []"
  proof -
    from that st have "adj = []" by simp
    with fc X' st show ?thesis by (auto simp add: fit_cause_def thenE_eq_Inr)
  qed
  from effect cause raw show ?thesis by blast
qed

theorem fit_error_series_witness:
  "fit example_sklearn (DataFrame X_cat) ''A'' ''B'' (Some (names_1d [''C''])) None None
     = Inr st_cat
   \<and> self_adjustments st_cat \<noteq> []
   \<and> self_model_cause st_cat = Some coin_model
   \<and> self_error_cause st_cat
       = \<lparr>sr_name = ''A'', sr_index = df_index X_cat,
          sr_column = \<lparr>categorical = False, cells = replicate (n_rows X_cat) NaN\<rparr>\<rparr>
   \<and> predict (self_model_effect st_cat)
        (X_cat\<lparr>df_columns := [(''A'', lab_column [''a'', ''b'', ''a'']),
                               (''C'', num_column [7, 8, 9])]\<rparr>) = Inr [0, 0, 0]
   \<and> self_error_effect st_cat
       = \<lparr>sr_name = ''B'', sr_index = df_index X_cat,
          sr_column = \<lparr>categorical = False,
                       cells = [Num (float64 (4 - 0)), Num (float64 (5 - 0)),
                                Num (float64 (6 - 0))]\<rparr>\<rparr>
   \<and> fit example_sklearn (DataFrame X_ab) ''A'' ''B'' None None None = Inr st_ab
   \<and> self_adjustments st_ab = []
   \<and> self_model_cause st_ab = None
   \<and> getitem X_ab ''A'' = Inr (self_error_cause st_ab)"
  using fit_error_series [OF fit_cat] fit_cat fit_error_series [OF fit_ab] fit_ab
  by (simp add: table_defs example_defs st_ab_def)

text \<open>
  The claim as stated fails for a categorical cause when \<^verbatim>\<open>fit\<close> is called without
  adjustments (the default): \<^verbatim>\<open>self.error_cause_ = X[cause]\<close> (source line 108)
  stores the labels themselves, not NaN.
\<close>

theorem categorical_cause_without_adjustments_keeps_labels:
  "\<exists>st. fit example_sklearn (DataFrame X_cat) ''A'' ''B'' None None None = Inr st
        \<and> (\<exists>x. getitem X_cat ''A'' = Inr x \<and> categorical (sr_column x))
        \<and> self_model_cause st = None
        \<and> self_error_cause st
            = \<lparr>sr_name = ''A'', sr_index = [0, 1, 2], sr_column = lab_column [''a'', ''b'', ''a'']\<rparr>
        \<and> cells (sr_column (self_error_cause st)) = [Lab ''a'', Lab ''b'', Lab ''a'']
        \<and> cells (sr_column (self_error_cause st)) \<noteq> replicate (n_rows X_cat) NaN"
  by (simp add: fit_defs table_defs example_defs)

section \<open>The columns of the generated table\<close>

text \<open>
  Claim C2. The claim is that \<^verbatim>\<open>generate\<close> always returns a table with the
  columns and the row index of the fitted \<open>X\<close>. The source builds its working table
  from the cause, the effect and the adjustments only (source line 187) and at the end
  selects all the columns of \<open>X\<close> from it (line 257), which pandas refuses with a
  KeyError when \<open>X\<close> has any other column. Evaluated here on a table with the
  columns A, B, C, D, fitted with cause A, effect B and adjustment C.
\<close>

theorem generate_with_unused_column_raises:
  "\<exists>st. fit example_sklearn (DataFrame X_abcd) ''A'' ''B'' (Some (names_1d [''C''])) None None
          = Inr st
        \<and> generate first_choice st NoneArg NoneArg NoModel () NoModel () 0
          = (Inl (KeyError ''D''), 0)"
  by (simp add: fit_defs generate_defs table_defs example_defs)

section \<open>Selecting and assigning columns\<close>

subsection \<open>Columns of a given name\<close>

lemma filter_fst_eq:
  "filter (\<lambda>p. fst p = k) cs = map (Pair k) (map snd (filter (\<lambda>p. fst p = k) cs))"
  by (induction cs) auto

lemma col_names_mem_iff: "k \<in> set (col_names f) \<longleftrightarrow> cols_named f k \<noteq> []"
  by (auto simp add: col_names_def cols_named_def filter_empty_conv)


lemma concat_if_distinct:
  "distinct ks \<Longrightarrow> k \<in> set ks \<Longrightarrow> concat (map (\<lambda>k'. if k' = k then A else []) ks) = A"
  by (induction ks) auto





subsection \<open>Selection\<close>

lemma getitem_list_Inr:
  "getitem_list f ks = Inr g \<longleftrightarrow>
     set ks \<subseteq> set (col_names f) \<and> g = f\<lparr>df_columns := select_columns (df_columns f) ks\<rparr>"
proof (cases "filter (\<lambda>k. k \<notin> set (col_names f)) ks")
  case Nil
  then have "set ks \<subseteq> set (col_names f)" by (auto simp add: filter_empty_conv)
  with Nil show ?thesis by (auto simp add: getitem_list_def)
next
  case (Cons k ks')
  then have "k \<in> set (filter (\<lambda>k. k \<notin> set (col_names f)) ks)" by simp
  then have "\<not> set ks \<subseteq> set (col_names f)" by auto
  with Cons show ?thesis by (simp add: getitem_list_def)
qed


lemma select_columns_cong:
  "(\<And>k. k \<in> set ks \<Longrightarrow> map snd (filter (\<lambda>p. fst p = k) cs) = map snd (filter (\<lambda>p. fst p = k) cs'))
     \<Longrightarrow> select_columns cs ks = select_columns cs' ks"
  unfolding select_columns_def
  by (rule arg_cong [where f = concat], rule map_cong [OF refl])
     (subst filter_fst_eq, subst (2) filter_fst_eq, simp)

lemma getitem_list_cong:
  assumes "getitem_list f ks = Inr g" and "df_index f' = df_index f"
    and "\<And>k. k \<in> set ks \<Longrightarrow> cols_named f' k = cols_named f k"
  shows "getitem_list f' ks = Inr g"
proof -
  from assms(1) have sub: "set ks \<subseteq> set (col_names f)"
    and g: "g = f\<lparr>df_columns := select_columns (df_columns f) ks\<rparr>"
    by (simp_all add: getitem_list_Inr)
  have sub': "set ks \<subseteq> set (col_names f')"
    using sub assms(3) by (auto simp add: col_names_mem_iff)
  have "select_columns (df_columns f') ks = select_columns (df_columns f) ks"
    by (rule select_columns_cong) (use assms(3) in \<open>simp add: cols_named_def\<close>)
  then have "f'\<lparr>df_columns := select_columns (df_columns f') ks\<rparr> = g"
    using g assms(2) by (cases f, cases f') simp
  with sub' show ?thesis by (simp add: getitem_list_Inr)
qed

subsection \<open>Assignment\<close>

lemma put_column_index: "df_index (put_column f k c) = df_index f"
  by (simp add: put_column_def)

lemma put_column_names:
  "k \<in> set (col_names f) \<Longrightarrow> col_names (put_column f k c) = col_names f"
  by (auto simp add: put_column_def col_names_def intro!: map_idI)

lemma put_column_other:
  "k' \<noteq> k \<Longrightarrow> cols_named (put_column f k c) k' = cols_named f k'"
proof -
  assume ne: "k' \<noteq> k"
  have "filter (\<lambda>p. fst p = k') (map (\<lambda>p. if fst p = k then (k, c) else p) cs)
          = filter (\<lambda>p. fst p = k') cs" for cs :: "(string \<times> column) list"
    using ne by (induction cs) auto
  with ne show ?thesis by (simp add: put_column_def cols_named_def)
qed

lemma put_column_same:
  "k \<in> set (col_names f) \<Longrightarrow>
     cols_named (put_column f k c) k = replicate (length (cols_named f k)) c"
proof -
  have "map snd (filter (\<lambda>p. fst p = k) (map (\<lambda>p. if fst p = k then (k, c) else p) cs))
          = replicate (length (filter (\<lambda>p. fst p = k) cs)) c" for cs :: "(string \<times> column) list"
    by (induction cs) auto
  then show "k \<in> set (col_names f) \<Longrightarrow> ?thesis"
    by (simp add: put_column_def cols_named_def)
qed

lemma set_item_Inr:
  assumes "set_item f k c = Inr g" and "k \<in> set (col_names f)"
  shows "df_index g = df_index f" and "col_names g = col_names f"
    and "length (cells c) = n_rows f"
    and "cols_named g k = replicate (length (cols_named f k)) c"
    and "\<And>k'. k' \<noteq> k \<Longrightarrow> cols_named g k' = cols_named f k'"
  using assms
  by (auto simp add: set_item_def put_column_index put_column_names put_column_same
        put_column_other split: if_splits)

lemma replace_named_names: "map fst (replace_named k ps cs) = map fst ps"
  by (induction k ps cs rule: replace_named.induct) (auto split: list.splits)

lemma replace_named_other:
  "k' \<noteq> k \<Longrightarrow>
     filter (\<lambda>p. fst p = k') (replace_named k ps cs) = filter (\<lambda>p. fst p = k') ps"
  by (induction k ps cs rule: replace_named.induct) (auto split: list.splits)

lemma replace_named_same:
  "length cs = length (filter (\<lambda>p. fst p = k) ps) \<Longrightarrow>
     map snd (filter (\<lambda>p. fst p = k) (replace_named k ps cs)) = cs"
  by (induction k ps cs rule: replace_named.induct) (auto split: list.splits)

lemma fill_columns_Inr:
  shows "df_index (fill_columns f k vs) = df_index f"
    and "col_names (fill_columns f k vs) = col_names f"
    and "\<And>k'. k' \<noteq> k \<Longrightarrow> cols_named (fill_columns f k vs) k' = cols_named f k'"
    and "length vs = length (cols_named f k) \<Longrightarrow>
           cols_named (fill_columns f k vs) k
             = map (\<lambda>v. \<lparr>categorical = False, cells = replicate (n_rows f) v\<rparr>) vs"
  by (simp_all add: fill_columns_def col_names_def cols_named_def replace_named_names
      replace_named_other replace_named_same)

lemma setitem_array_Inr:
  assumes "setitem_array f k vs = Inr g" and "k \<in> set (col_names f)"
  shows "df_index g = df_index f" and "col_names g = col_names f"
    and "\<And>k'. k' \<noteq> k \<Longrightarrow> cols_named g k' = cols_named f k'"
    and "cols_named g k =
           (if 1 < length (cols_named f k) \<and> length vs = length (cols_named f k)
            then map (\<lambda>v. \<lparr>categorical = False, cells = replicate (n_rows f) v\<rparr>) vs
            else replicate (length (cols_named f k)) \<lparr>categorical = False, cells = vs\<rparr>)"
    and "\<not> (1 < length (cols_named f k) \<and> length vs = length (cols_named f k)) \<Longrightarrow>
           length vs = n_rows f"
proof -
  have "df_index g = df_index f \<and> col_names g = col_names f \<and>
      (\<forall>k'. k' \<noteq> k \<longrightarrow> cols_named g k' = cols_named f k') \<and>
      cols_named g k =
           (if 1 < length (cols_named f k) \<and> length vs = length (cols_named f k)
            then map (\<lambda>v. \<lparr>categorical = False, cells = replicate (n_rows f) v\<rparr>) vs
            else replicate (length (cols_named f k)) \<lparr>categorical = False, cells = vs\<rparr>) \<and>
      (\<not> (1 < length (cols_named f k) \<and> length vs = length (cols_named f k)) \<longrightarrow>
           length vs = n_rows f)"
  proof (cases "1 < length (cols_named f k) \<and> length vs = length (cols_named f k)")
    case True
    with assms(1) have g: "g = fill_columns f k vs" by (simp add: setitem_array_def)
    from True show ?thesis unfolding g by (simp add: fill_columns_Inr)
  next
    case False
    with assms(1) have s: "set_item f k \<lparr>categorical = False, cells = vs\<rparr> = Inr g"
      by (auto simp add: setitem_array_def)
    from set_item_Inr [OF s assms(2)] False show ?thesis by auto
  qed
  then show "df_index g = df_index f" and "col_names g = col_names f"
    and "\<And>k'. k' \<noteq> k \<Longrightarrow> cols_named g k' = cols_named f k'"
    and "cols_named g k =
           (if 1 < length (cols_named f k) \<and> length vs = length (cols_named f k)
            then map (\<lambda>v. \<lparr>categorical = False, cells = replicate (n_rows f) v\<rparr>) vs
            else replicate (length (cols_named f k)) \<lparr>categorical = False, cells = vs\<rparr>)"
    and "\<not> (1 < length (cols_named f k) \<and> length vs = length (cols_named f k)) \<Longrightarrow>
           length vs = n_rows f"
    by simp_all
qed

lemma setitem_array_single:
  assumes "setitem_array f k vs = Inr g" and "cols_named f k = [c]"
  shows "cols_named g k = [\<lparr>categorical = False, cells = vs\<rparr>]" and "length vs = n_rows f"
proof -
  from assms(2) have mem: "k \<in> set (col_names f)" by (simp add: col_names_mem_iff)
  from setitem_array_Inr(4,5) [OF assms(1) mem] assms(2)
  show "cols_named g k = [\<lparr>categorical = False, cells = vs\<rparr>]" and "length vs = n_rows f"
    by simp_all
qed

lemma setitem_series_Inr:
  assumes "setitem_series f k s = Inr g" and "k \<in> set (col_names f)"
  shows "df_index g = df_index f" and "col_names g = col_names f"
    and "\<And>k'. k' \<noteq> k \<Longrightarrow> cols_named g k' = cols_named f k'"
proof -
  have "df_index g = df_index f \<and> col_names g = col_names f \<and>
        (\<forall>k'. k' \<noteq> k \<longrightarrow> cols_named g k' = cols_named f k')"
  proof (cases "1 < length (cols_named f k) \<and>
                length (cells (sr_column s)) = length (cols_named f k)")
    case True
    with assms(1) have "g = fill_columns f k (cells (sr_column s))"
      by (simp add: setitem_series_def split: if_splits)
    then show ?thesis by (simp add: fill_columns_Inr)
  next
    case False
    with assms(1) obtain c where "set_item f k c = Inr g"
      by (auto simp add: setitem_series_def split: if_splits)
    from set_item_Inr [OF this assms(2)] show ?thesis by simp
  qed
  then show "df_index g = df_index f" and "col_names g = col_names f"
    and "\<And>k'. k' \<noteq> k \<Longrightarrow> cols_named g k' = cols_named f k'"
    by simp_all
qed

lemma setitem_series_single:
  assumes "setitem_series f k s = Inr g" and "cols_named f k = [c]"
    and "sr_index s = df_index f"
  shows "cols_named g k = [sr_column s]" and "length (cells (sr_column s)) = n_rows f"
proof -
  from assms(2) have mem: "k \<in> set (col_names f)" by (simp add: col_names_mem_iff)
  from assms have "set_item f k (sr_column s) = Inr g" by (simp add: setitem_series_def)
  from set_item_Inr(3,4) [OF this mem] assms(2)
  show "cols_named g k = [sr_column s]" and "length (cells (sr_column s)) = n_rows f"
    by simp_all
qed

section \<open>Arithmetic and row selection\<close>

subsection \<open>In-place addition and categorical conversion\<close>



lemma iadd_array_single:
  assumes "iadd_array f k rs = Inr g" and "cols_named f k = [c]"
  shows "\<exists>vs. add_array (cells c) rs = Inr vs \<and>
              cols_named g k = [\<lparr>categorical = False, cells = vs\<rparr>]"
proof -
  from assms obtain vs where vs: "add_array (cells c) rs = Inr vs"
    and s: "setitem_array f k vs = Inr g"
    by (auto simp add: iadd_array_def thenE_eq_Inr split: if_splits)
  from setitem_array_single(1) [OF s assms(2)] vs show ?thesis by simp
qed


subsection \<open>Row selection\<close>






section \<open>The stages of \<^verbatim>\<open>generate\<close>\<close>

lemma same_except_set_item:
  "set_item f k c = Inr g \<Longrightarrow> k \<in> set (col_names f) \<Longrightarrow> same_except k f g"
  using set_item_Inr [of f k c g] by (simp add: same_except_def)


lemma same_except_setitem_series:
  "setitem_series f k s = Inr g \<Longrightarrow> k \<in> set (col_names f) \<Longrightarrow> same_except k f g"
  using setitem_series_Inr [of f k s g] by (simp add: same_except_def)





lemma same_except_mem:
  "same_except k f g \<Longrightarrow> k' \<in> set (col_names g) \<longleftrightarrow> k' \<in> set (col_names f)"
  by (simp add: same_except_def)





subsection \<open>Checked interventions\<close>




subsection \<open>What \<^verbatim>\<open>fit\<close> establishes\<close>


subsection \<open>The working table\<close>






section \<open>Endogenous interventions\<close>

lemma check_items_model_update [simp]:
  "check_items (st\<lparr>self_model_cause := m\<rparr>) items = check_items st items"
  "check_items (st\<lparr>self_model_effect := m'\<rparr>) items = check_items st items"
proof (induction items)
  case Nil
  { case 1 show ?case by simp }
  { case 2 show ?case by simp }
next
  case (Cons item items)
  obtain key vs where item: "item = (key, vs)" by (cases item)
  { case 1
    with Cons item show ?case
      by (cases key; cases "check_array_values vs") (simp_all add: n_rows_def) }
  { case 2
    with Cons item show ?case
      by (cases key; cases "check_array_values vs") (simp_all add: n_rows_def) }
qed

lemma by_custom_model_update [simp]:
  "by_custom_model (st\<lparr>self_model_cause := m\<rparr>) = by_custom_model st"
  "by_custom_model (st\<lparr>self_model_effect := m'\<rparr>) = by_custom_model st"
  by (simp_all add: by_custom_model_def fun_eq_iff)

lemma by_fitted_model_update [simp]:
  "by_fitted_model choice (st\<lparr>self_model_cause := m\<rparr>) = by_fitted_model choice st"
  "by_fitted_model choice (st\<lparr>self_model_effect := m'\<rparr>) = by_fitted_model choice st"
  by (simp_all add: by_fitted_model_def fun_eq_iff)


lemma initial_data_model_update [simp]:
  "initial_data (st\<lparr>self_model_cause := m\<rparr>) exog = initial_data st exog"
  "initial_data (st\<lparr>self_model_effect := m'\<rparr>) exog = initial_data st exog"
  by (simp_all add: initial_data_def)

lemma check_data_dict_model_update [simp]:
  "check_data_dict (st\<lparr>self_model_cause := m\<rparr>) d name = check_data_dict st d name"
  "check_data_dict (st\<lparr>self_model_effect := m'\<rparr>) d name = check_data_dict st d name"
  by (simp_all add: check_data_dict_def split: dict_arg.splits)







lemma set_replicate_pos: "xs \<noteq> [] \<Longrightarrow> set (replicate (length xs) c) = {c}"
  by (cases xs) auto














end
